(* ===== verification/Prelude.thy ===== *)
theory Prelude
  imports Main "HOL-Library.Sublist"
begin

text \<open>
  Shared vocabulary of the NomNom development. The application is written in JavaScript
  and leans on a handful of string primitives of the language library:
  \<open>String.prototype.trim\<close>, \<open>toLowerCase\<close>, \<open>includes\<close> and
  \<open>Array.prototype.join\<close>. They are modelled here on HOL strings (lists of
  \<open>char\<close>), restricted to the ASCII range: \<open>js_trim\<close> removes the ASCII
  white space and line terminators (TAB, LF, VT, FF, CR, SPACE), \<open>to_lower\<close> maps
  \<open>A\<close>..\<open>Z\<close> to \<open>a\<close>..\<open>z\<close> and leaves every other character alone,
  \<open>js_includes\<close> (\<open>String.prototype.includes\<close>) is the substring test and \<open>js_join\<close> joins with a separator.
  \<open>js_includes\<close> is executable and is proved equal to the library's reference notion
  \<open>sublist\<close> of \<open>HOL-Library.Sublist\<close>; the lemmas below are what the search filter
  and the review validation use. The collections \<open>js_simps\<close>, \<open>store_simps\<close> and
  \<open>app_simps\<close> gather the rewrite rules of the string layer, of the stores and of the
  application step.
\<close>

named_theorems js_simps "rewrite rules of the modelled JavaScript string primitives"
named_theorems store_simps "rewrite rules of the persisted stores"
named_theorems app_simps "rewrite rules of the application step"

type_synonym rid = string

definition is_space :: "char \<Rightarrow> bool" where
  "is_space c \<longleftrightarrow> (let n = (of_char c :: nat) in (9 \<le> n \<and> n \<le> 13) \<or> n = 32)"

definition js_trim :: "string \<Rightarrow> string" where
  "js_trim s = rev (dropWhile is_space (rev (dropWhile is_space s)))"

definition lower_char :: "char \<Rightarrow> char" where
  "lower_char c =
     (let n = (of_char c :: nat) in if 65 \<le> n \<and> n \<le> 90 then char_of (n + 32) else c)"

definition to_lower :: "string \<Rightarrow> string" where
  "to_lower s = map lower_char s"

fun starts_with :: "string \<Rightarrow> string \<Rightarrow> bool" where
  "starts_with s [] = True"
| "starts_with [] (c # cs) = False"
| "starts_with (x # xs) (c # cs) = (x = c \<and> starts_with xs cs)"

fun js_includes :: "string \<Rightarrow> string \<Rightarrow> bool" where
  "js_includes [] q = (q = [])"
| "js_includes (x # xs) q = (starts_with (x # xs) q \<or> js_includes xs q)"

fun js_join :: "string \<Rightarrow> string list \<Rightarrow> string" where
  "js_join sep [] = []"
| "js_join sep [x] = x"
| "js_join sep (x # y # xs) = x @ sep @ js_join sep (y # xs)"

lemma starts_with_prefix [js_simps]: "starts_with s q \<longleftrightarrow> prefix q s"
  by (induction s q rule: starts_with.induct) auto

theorem includes_sublist [js_simps]: "js_includes s q \<longleftrightarrow> sublist q s"
proof (induction s)
  case Nil
  then show ?case by simp
next
  case (Cons x xs)
  then show ?case by (simp add: starts_with_prefix sublist_Cons_right)
qed

lemma js_trim_sublist: "sublist (js_trim s) s"
proof -
  have "sublist (dropWhile is_space s) s"
    by (metis sublist_append_leftI takeWhile_dropWhile_id)
  moreover have "sublist (rev (dropWhile is_space (rev t))) t" for t :: string
    by (metis rev_rev_ident rev_append sublist_append_rightI takeWhile_dropWhile_id)
  ultimately show ?thesis
    unfolding js_trim_def by (meson sublist_order.order_trans)
qed

lemma js_trim_length: "length (js_trim s) \<le> length s"
  using js_trim_sublist sublist_length_le by blast

lemma to_lower_sublist: "sublist a b \<Longrightarrow> sublist (to_lower a) (to_lower b)"
  unfolding to_lower_def by (rule map_mono_sublist)

lemma to_lower_Nil [simp]: "to_lower s = [] \<longleftrightarrow> s = []"
  by (simp add: to_lower_def)

lemma to_lower_append [simp]: "to_lower (a @ b) = to_lower a @ to_lower b"
  by (simp add: to_lower_def)

lemma to_lower_join: "to_lower (js_join sep xs) = js_join (to_lower sep) (map to_lower xs)"
  by (induction sep xs rule: js_join.induct) simp_all

lemma those_map_inverse:
  "(\<And>x. x \<in> set xs \<Longrightarrow> f (g x) = Some x) \<Longrightarrow> those (map (f \<circ> g) xs) = Some xs"
  by (induction xs) auto

lemma includes_Nil [simp]: "js_includes s []"
  by (simp add: includes_sublist)

end
