(* ===== verification/Catalog.thy ===== *)
theory Catalog
  imports Complex_Main Prelude
begin

text \<open>
  The catalog source: the constant \<open>MOCK_RESTAURANTS\<close> of \<open>src/src/App.jsx\<close>
  (lines 5--60), an array of restaurant objects, each with a menu of items. A restaurant
  object is the record \<open>restaurant\<close>; the JavaScript field \<open>id\<close> is \<open>rid\<close> and
  the field \<open>reviews\<close> (the advertised review count) is \<open>reviews_count\<close>, because
  both names are taken in HOL or by the application state. The price tier stays the
  string the code shows (\<open>$\<close>, \<open>$$\<close>, \<open>$$$\<close>); the average rating, a JavaScript
  number, is a rational so that the literals \<open>4.6\<close>, \<open>4.2\<close>, \<open>4.8\<close> are exact.
  \<open>find_restaurant\<close> is the lookup \<open>MOCK_RESTAURANTS.find(x => x.id === active)\<close>
  of the detail view (line 138), with \<open>None\<close> for JavaScript's \<open>undefined\<close>.
\<close>

record menu_item =
  item_name :: string
  item_price :: nat

record restaurant =
  rid :: rid
  name :: string
  area :: string
  cuisine :: "string list"
  price :: string
  rating :: rat
  reviews_count :: nat
  tags :: "string list"
  img :: string
  menu :: "menu_item list"
  description :: string

definition MOCK_RESTAURANTS :: "restaurant list" where
  "MOCK_RESTAURANTS = [
    \<lparr>rid = ''r1'', name = ''BunBun Banh Mi'', area = ''Banani'',
     cuisine = [''Vietnamese'', ''Sandwich''], price = ''$$'', rating = 4.6,
     reviews_count = 142, tags = [''Kid friendly'', ''Non smoking''],
     img = ''https://images.unsplash.com/photo-1544025162-d76694265947?q=80&w=1200&auto=format&fit=crop'',
     menu = [\<lparr>item_name = ''Classic Banh Mi'', item_price = 380\<rparr>,
             \<lparr>item_name = ''Grilled Chicken Banh Mi'', item_price = 420\<rparr>,
             \<lparr>item_name = ''Iced Coffee'', item_price = 220\<rparr>],
     description = ''Crisp baguettes with bold fillings. Cosy spot for a quick bite and coffee.''\<rparr>,
    \<lparr>rid = ''r2'', name = ''Chaa Club'', area = ''Dhanmondi'',
     cuisine = [''Cafe'', ''Dessert''], price = ''$'', rating = 4.2,
     reviews_count = 89, tags = [''Work friendly'', ''WiFi''],
     img = ''https://images.unsplash.com/photo-1504754524776-8f4f37790ca0?q=80&w=1200&auto=format&fit=crop'',
     menu = [\<lparr>item_name = ''Masala Chai'', item_price = 180\<rparr>,
             \<lparr>item_name = ''Cheesecake Slice'', item_price = 320\<rparr>,
             \<lparr>item_name = ''Chicken Sandwich'', item_price = 350\<rparr>],
     description = ''Tea focused cafe with calm vibes and power sockets at every table.''\<rparr>,
    \<lparr>rid = ''r3'', name = ''Kacchi Stories'', area = ''Uttara'',
     cuisine = [''Bangladeshi''], price = ''$$$'', rating = 4.8,
     reviews_count = 512, tags = [''Family'', ''Parking''],
     img = ''https://images.unsplash.com/photo-1617195737496-87df82d906b6?q=80&w=1200&auto=format&fit=crop'',
     menu = [\<lparr>item_name = ''Kacchi Platter'', item_price = 780\<rparr>,
             \<lparr>item_name = ''Borhani'', item_price = 120\<rparr>,
             \<lparr>item_name = ''Firni'', item_price = 160\<rparr>],
     description = ''Rich kacchi with generous portions, perfect for gatherings.''\<rparr>]"

definition find_restaurant :: "restaurant list \<Rightarrow> rid \<Rightarrow> restaurant option" where
  "find_restaurant cat a = find (\<lambda>x. rid x = a) cat"

definition catalog_ids :: "restaurant list \<Rightarrow> rid set" where
  "catalog_ids cat = set (map rid cat)"

lemma find_restaurant_Some_iff:
  "(\<exists>r. find_restaurant cat a = Some r) \<longleftrightarrow> a \<in> catalog_ids cat"
  by (induction cat) (auto simp: find_restaurant_def catalog_ids_def)

lemma find_restaurant_rid:
  "find_restaurant cat a = Some r \<Longrightarrow> rid r = a \<and> r \<in> set cat"
  by (auto simp: find_restaurant_def dest: find_Some_iff [THEN iffD1] simp: nth_mem)

lemma mock_ids: "map rid MOCK_RESTAURANTS = [''r1'', ''r2'', ''r3'']"
  by (simp add: MOCK_RESTAURANTS_def)

end
