(* ===== verification/Search.thy ===== *)
theory Search
  imports Catalog
begin

text \<open>
  The search filter: the memoised value \<open>restaurants\<close> of \<open>App\<close>
  (\<open>src/src/App.jsx\<close>, lines 81--92). The query is normalised by
  \<open>query.trim().toLowerCase()\<close> (\<open>norm_query\<close>); a normalised query that is the
  empty string is falsy and leaves the catalog as it is; otherwise a restaurant is kept
  when its lower-cased name, its lower-cased area or its lower-cased cuisine tags joined
  by a space include the query (\<open>matches\<close>). The catalog is a parameter here; the
  application applies the filter to \<open>MOCK_RESTAURANTS\<close>.

  The lemmas characterise the result on every branch, show that it is an order-preserving
  subsequence of the catalog, that a query spelling a restaurant's name in any case finds
  it, and that refining a query (its normal form extended to a longer text that contains
  it) never adds a result.
\<close>

definition norm_query :: "string \<Rightarrow> string" where
  "norm_query query = to_lower (js_trim query)"

definition matches :: "string \<Rightarrow> restaurant \<Rightarrow> bool" where
  "matches q r \<longleftrightarrow>
     js_includes (to_lower (name r)) q \<or>
     js_includes (to_lower (area r)) q \<or>
     js_includes (to_lower (js_join '' '' (cuisine r))) q"

definition restaurants :: "restaurant list \<Rightarrow> string \<Rightarrow> restaurant list" where
  "restaurants cat query =
     (let q = norm_query query in if q \<noteq> [] then filter (matches q) cat else cat)"

lemma matches_sublist:
  "matches q r \<Longrightarrow> sublist p q \<Longrightarrow> matches p r"
  unfolding matches_def includes_sublist
  by (meson sublist_order.order_trans)

lemma filter_mono_subseq:
  "(\<And>x. P x \<Longrightarrow> Q x) \<Longrightarrow> subseq (filter P xs) (filter Q xs)"
proof -
  assume PQ: "\<And>x. P x \<Longrightarrow> Q x"
  then have "filter P xs = filter P (filter Q xs)"
    by (induction xs) auto
  then show ?thesis by (metis subseq_filter_left)
qed

lemma norm_query_sublist: "sublist (norm_query q) (to_lower q)"
  unfolding norm_query_def by (rule to_lower_sublist [OF js_trim_sublist])

lemma restaurants_member:
  "r \<in> set (restaurants cat q) \<longleftrightarrow>
     r \<in> set cat \<and> (norm_query q = [] \<or> matches (norm_query q) r)"
  by (auto simp: restaurants_def Let_def)

lemma to_lower_space: "to_lower '' '' = '' ''"
  by code_simp

lemma restaurants_subset: "x \<in> set (restaurants cat q) \<Longrightarrow> x \<in> set cat"
  by (auto simp: restaurants_def Let_def split: if_splits)

text \<open>
  C11. The search filter is the specification's filter: the result is the catalog, in its
  order, restricted to the restaurants whose lower-cased name, lower-cased area, or
  lower-cased cuisine tags joined by a space contain the trimmed, lower-cased query as a
  contiguous substring (the library's \<open>sublist\<close>). An empty query keeps every
  restaurant, since the empty string is a substring of every text.
\<close>

theorem restaurants_spec:
  "restaurants cat query =
     filter (\<lambda>r. sublist (to_lower (js_trim query)) (to_lower (name r)) \<or>
                 sublist (to_lower (js_trim query)) (to_lower (area r)) \<or>
                 sublist (to_lower (js_trim query)) (js_join '' '' (map to_lower (cuisine r)))) cat"
proof -
  let ?q = "to_lower (js_trim query)"
  have m: "matches ?q = (\<lambda>r. sublist ?q (to_lower (name r)) \<or> sublist ?q (to_lower (area r)) \<or>
                             sublist ?q (js_join '' '' (map to_lower (cuisine r))))"
    by (rule ext) (simp add: matches_def includes_sublist to_lower_join to_lower_space)
  have e: "to_lower [] = []" by (simp add: to_lower_def)
  show ?thesis
    by (simp add: restaurants_def norm_query_def m e)
qed

text \<open>
  C12. A query that is empty after trimming returns the catalog unchanged, in its order.
\<close>

theorem restaurants_empty_query:
  "norm_query q = [] \<Longrightarrow> restaurants cat q = cat"
  by (simp add: restaurants_def)

text \<open>
  C13. A query that spells a restaurant's name, in any letter case, finds that restaurant.
\<close>

theorem restaurants_name_query:
  assumes "r \<in> set cat" and "to_lower q = to_lower (name r)"
  shows "r \<in> set (restaurants cat q)"
proof -
  have "sublist (norm_query q) (to_lower (name r))"
    using norm_query_sublist [of q] assms(2) by simp
  then have "matches (norm_query q) r"
    by (simp add: matches_def includes_sublist)
  with assms(1) show ?thesis by (simp add: restaurants_member)
qed

text \<open>
  C14. Refining a query never adds results: when the normalised old query occurs inside the normalised new one, the new result is a subsequence of the old.
\<close>

theorem restaurants_narrowing:
  assumes "sublist (norm_query q1) (norm_query q2)"
  shows "subseq (restaurants cat q2) (restaurants cat q1)"
proof (cases "norm_query q1 = []")
  case True
  then show ?thesis by (simp add: restaurants_def Let_def)
next
  case False
  with assms have "norm_query q2 \<noteq> []" by auto
  moreover have "subseq (filter (matches (norm_query q2)) cat)
                        (filter (matches (norm_query q1)) cat)"
    using assms by (blast intro: filter_mono_subseq matches_sublist)
  ultimately show ?thesis using False by (simp add: restaurants_def)
qed

theorem restaurants_empty_query_witness:
  "norm_query ''  '' = [] \<and> restaurants MOCK_RESTAURANTS ''  '' = MOCK_RESTAURANTS"
proof -
  have h: "norm_query ''  '' = []" by code_simp
  from h restaurants_empty_query [OF h] show ?thesis by simp
qed

theorem restaurants_name_query_witness:
  "MOCK_RESTAURANTS ! 1 \<in> set MOCK_RESTAURANTS \<and>
   to_lower ''CHAA CLUB'' = to_lower (name (MOCK_RESTAURANTS ! 1)) \<and>
   MOCK_RESTAURANTS ! 1 \<in> set (restaurants MOCK_RESTAURANTS ''CHAA CLUB'')"
proof -
  have h1: "MOCK_RESTAURANTS ! 1 \<in> set MOCK_RESTAURANTS" by (simp add: MOCK_RESTAURANTS_def)
  have h2: "to_lower ''CHAA CLUB'' = to_lower (name (MOCK_RESTAURANTS ! 1))" by code_simp
  from h1 h2 restaurants_name_query [OF h1 h2] show ?thesis by simp
qed

theorem restaurants_narrowing_witness:
  "sublist (norm_query ''dhan'') (norm_query ''Dhanmondi'') \<and>
   subseq (restaurants MOCK_RESTAURANTS ''Dhanmondi'') (restaurants MOCK_RESTAURANTS ''dhan'')"
proof -
  have h: "sublist (norm_query ''dhan'') (norm_query ''Dhanmondi'')" by code_simp
  from h restaurants_narrowing [OF h] show ?thesis by simp
qed

end
