(* ===== verification/Json.thy ===== *)
theory Json
  imports Prelude
begin

text \<open>
  Persistence: the helpers \<open>loadLocal\<close> and \<open>saveLocal\<close> of \<open>src/src/App.jsx\<close>
  (lines 63--66) over the browser's \<open>localStorage\<close>.

  The values the application stores are JavaScript values that \<open>JSON.stringify\<close>
  accepts; they are the datatype \<open>json\<close>. A JavaScript object is an association list
  of its own properties in their enumeration order; \<open>obj_set\<close> is the property
  assignment \<open>o[k] = v\<close> (the value of an existing property is replaced in place, a new
  property goes last), which is also how the spread \<open>{...prev, [k]: v}\<close> and
  \<open>JSON.parse\<close> build objects; \<open>obj_of_pairs\<close> is that construction from a list
  of key/value pairs, a later duplicate key overwriting an earlier one.

  \<open>localStorage\<close> maps keys to strings. The JSON library is not part of this
  repository: a stored string is abstracted to what \<open>JSON.parse\<close> makes of it, a
  value (\<open>Parsed\<close>) or an exception (\<open>Unparsable\<close>), and \<open>saveLocal\<close>, which
  stores \<open>JSON.stringify(val)\<close>, stores \<open>Parsed val\<close>: the library's law that
  parsing the output of \<open>JSON.stringify\<close> gives the value back, for values without
  \<open>undefined\<close>, functions or non-finite numbers, which the application never stores.
  JavaScript numbers are doubles; the application stores only integers below
  \<open>2^53\<close> (millisecond timestamps, star counts), which doubles hold exactly, so they
  are \<open>int\<close>.
\<close>

datatype json =
    JNull
  | JBool bool
  | JNum int
  | JStr string
  | JArr "json list"
  | JObj "(string \<times> json) list"

datatype stored = Parsed json | Unparsable

type_synonym storage = "string \<Rightarrow> stored option"

fun obj_set :: "(string \<times> 'a) list \<Rightarrow> string \<Rightarrow> 'a \<Rightarrow> (string \<times> 'a) list" where
  "obj_set [] k v = [(k, v)]"
| "obj_set ((k', v') # ps) k v = (if k' = k then (k, v) # ps else (k', v') # obj_set ps k v)"

definition obj_of_pairs :: "(string \<times> 'a) list \<Rightarrow> (string \<times> 'a) list" where
  "obj_of_pairs ps = fold (\<lambda>(k, v) acc. obj_set acc k v) ps []"

definition loadLocal :: "storage \<Rightarrow> string \<Rightarrow> json \<Rightarrow> json" where
  "loadLocal st key fallback =
     (case st key of
        None \<Rightarrow> fallback
      | Some Unparsable \<Rightarrow> fallback
      | Some (Parsed JNull) \<Rightarrow> fallback
      | Some (Parsed v) \<Rightarrow> v)"

definition saveLocal :: "storage \<Rightarrow> string \<Rightarrow> json \<Rightarrow> storage" where
  "saveLocal st key val = st(key \<mapsto> Parsed val)"

lemma map_of_obj_set [store_simps]: "map_of (obj_set ps k v) = (map_of ps)(k \<mapsto> v)"
  by (induction ps) (auto simp: fun_eq_iff)

lemma keys_obj_set [store_simps]: "fst ` set (obj_set ps k v) = insert k (fst ` set ps)"
  by (induction ps k v rule: obj_set.induct) auto

lemma distinct_obj_set [store_simps]:
  "distinct (map fst ps) \<Longrightarrow> distinct (map fst (obj_set ps k v))"
  by (induction ps k v rule: obj_set.induct) (auto simp: keys_obj_set)

lemma obj_set_fresh: "k \<notin> set (map fst ps) \<Longrightarrow> obj_set ps k v = ps @ [(k, v)]"
  by (induction ps) auto

lemma obj_of_pairs_distinct:
  assumes "distinct (map fst ps)"
  shows "obj_of_pairs ps = ps"
proof -
  have "distinct (map fst (acc @ ps)) \<Longrightarrow> fold (\<lambda>(k, v) acc. obj_set acc k v) ps acc = acc @ ps"
    for acc
  proof (induction ps arbitrary: acc)
    case Nil
    then show ?case by simp
  next
    case (Cons p ps)
    obtain k v where p: "p = (k, v)" by (cases p)
    with Cons.prems have "obj_set acc k v = acc @ [(k, v)]"
      by (simp add: obj_set_fresh)
    with Cons.IH [of "acc @ [(k, v)]"] Cons.prems p show ?case by simp
  qed
  from this [of "[]"] assms show ?thesis by (simp add: obj_of_pairs_def)
qed

text \<open>
  C18. Reading a key back after \<open>saveLocal\<close> gives the saved value, except that a saved \<open>null\<close> reads back as the fallback.
\<close>

theorem loadLocal_saveLocal:
  "loadLocal (saveLocal st key val) key fallback = (if val = JNull then fallback else val)"
  by (cases val) (simp_all add: loadLocal_def saveLocal_def)

lemma loadLocal_saveLocal_other:
  "key' \<noteq> key \<Longrightarrow> loadLocal (saveLocal st key val) key' fallback = loadLocal st key' fallback"
  by (simp add: loadLocal_def saveLocal_def)

text \<open>
  C19. \<open>loadLocal\<close> returns the fallback when the key is absent, when the stored text does not
  parse, and when it parses to \<open>null\<close>.
\<close>

theorem loadLocal_fallback:
  "st key = None \<or> st key = Some Unparsable \<or> st key = Some (Parsed JNull) \<Longrightarrow>
     loadLocal st key fallback = fallback"
  by (auto simp: loadLocal_def)

theorem loadLocal_fallback_witness:
  "(Map.empty(''nom_user'' \<mapsto> Unparsable)) ''nom_user'' = Some Unparsable \<and>
   loadLocal (Map.empty(''nom_user'' \<mapsto> Unparsable)) ''nom_user'' JNull = JNull"
  using loadLocal_fallback [of "Map.empty(''nom_user'' \<mapsto> Unparsable)" "''nom_user''" JNull] by simp

end
