(* ===== verification/Stores.thy ===== *)
theory Stores
  imports Json "HOL-Library.Monad_Syntax"
begin

text \<open>
  The three persisted stores of \<open>App\<close> (\<open>src/src/App.jsx\<close>) and their JSON
  encodings.
  \<^item> Bookmark store: the state \<open>bookmarks\<close>, an array of restaurant ids (line 75).
    \<open>is_bookmarked\<close> is \<open>bookmarks.includes(r.id)\<close> (line 110) and
    \<open>toggle_bookmark\<close> the updater
    \<open>prev => prev.includes(r.id) ? prev.filter(i => i !== r.id) : [...prev, r.id]\<close>
    (lines 111 and 129).
  \<^item> Review store: the state \<open>reviews\<close>, an object from restaurant ids to arrays of
    reviews (line 74), here an association list in property order. \<open>reviews_of\<close> is
    \<open>reviews[active] || []\<close> (line 141), \<open>add_review\<close> the updater
    \<open>prev => ({ ...prev, [active]: [rev, ...(prev[active] || [])] })\<close> (line 142),
    \<open>new_review\<close> the review object built by the post button (line 300) and
    \<open>can_post\<close> the negation of its \<open>disabled\<close> condition (line 298).
  \<^item> Session store: the state \<open>user\<close> (line 73), \<open>null\<close> or the object
    \<open>{ name, email }\<close> built by the login form (line 343, \<open>login_user\<close>).
  The encoders are the values \<open>JSON.stringify\<close> sees when the effects of lines 77--79
  save the stores. The decoders say which stored JSON values have the shape the
  application expects; the application itself takes whatever \<open>JSON.parse\<close> returns.

  The lemmas: toggling is an involution on the set of bookmarks and on a list that does not
  hold the id, keeps the list free of duplicates and flips exactly one membership; a new
  review goes first in its restaurant's list and leaves the others alone, and the review
  object keeps its keys distinct; each store survives its JSON encoding (round trips).
\<close>

record session =
  user_name :: string
  user_email :: string

record review =
  review_id :: int
  review_user :: string
  stars :: nat
  review_text :: string
  date :: string

type_synonym review_map = "(rid \<times> review list) list"

definition is_bookmarked :: "rid list \<Rightarrow> rid \<Rightarrow> bool" where
  "is_bookmarked bs i \<longleftrightarrow> i \<in> set bs"

definition toggle_bookmark :: "rid \<Rightarrow> rid list \<Rightarrow> rid list" where
  "toggle_bookmark i prev = (if i \<in> set prev then filter (\<lambda>j. j \<noteq> i) prev else prev @ [i])"

definition reviews_of :: "review_map \<Rightarrow> rid \<Rightarrow> review list" where
  "reviews_of m a = (case map_of m a of Some rs \<Rightarrow> rs | None \<Rightarrow> [])"

definition add_review :: "rid \<Rightarrow> review \<Rightarrow> review_map \<Rightarrow> review_map" where
  "add_review a rv prev = obj_set prev a (rv # reviews_of prev a)"

definition new_review :: "session option \<Rightarrow> int \<Rightarrow> nat \<Rightarrow> string \<Rightarrow> string \<Rightarrow> review" where
  "new_review u now st txt when =
     \<lparr>review_id = now,
      review_user = (case u of None \<Rightarrow> ''Guest''
                     | Some s \<Rightarrow> if user_name s = [] then ''Guest'' else user_name s),
      stars = st, review_text = txt, date = when\<rparr>"

definition can_post :: "session option \<Rightarrow> nat \<Rightarrow> string \<Rightarrow> bool" where
  "can_post u st txt \<longleftrightarrow> \<not> (u = None \<or> st = 0 \<or> length (js_trim txt) < 5)"

definition login_user :: "string \<Rightarrow> string \<Rightarrow> session" where
  "login_user n e = \<lparr>user_name = n, user_email = e\<rparr>"

fun json_str :: "json \<Rightarrow> string option" where
  "json_str (JStr s) = Some s"
| "json_str _ = None"

fun json_int :: "json \<Rightarrow> int option" where
  "json_int (JNum i) = Some i"
| "json_int _ = None"

fun json_nat :: "json \<Rightarrow> nat option" where
  "json_nat (JNum i) = (if 0 \<le> i then Some (nat i) else None)"
| "json_nat _ = None"

definition field :: "(string \<times> json) list \<Rightarrow> string \<Rightarrow> json option" where
  "field ps k = map_of (obj_of_pairs ps) k"

definition encode_bookmarks :: "rid list \<Rightarrow> json" where
  "encode_bookmarks bs = JArr (map JStr bs)"

definition decode_bookmarks :: "json \<Rightarrow> rid list option" where
  "decode_bookmarks j = (case j of JArr xs \<Rightarrow> those (map json_str xs) | _ \<Rightarrow> None)"

definition encode_session :: "session option \<Rightarrow> json" where
  "encode_session u =
     (case u of None \<Rightarrow> JNull
      | Some s \<Rightarrow> JObj [(''name'', JStr (user_name s)), (''email'', JStr (user_email s))])"

definition decode_session :: "json \<Rightarrow> session option option" where
  "decode_session j =
     (case j of
        JNull \<Rightarrow> Some None
      | JObj ps \<Rightarrow> do {
          n \<leftarrow> field ps ''name'' \<bind> json_str;
          e \<leftarrow> field ps ''email'' \<bind> json_str;
          Some (Some \<lparr>user_name = n, user_email = e\<rparr>)
        }
      | _ \<Rightarrow> None)"

definition encode_review :: "review \<Rightarrow> json" where
  "encode_review r =
     JObj [(''id'', JNum (review_id r)), (''user'', JStr (review_user r)),
           (''stars'', JNum (int (stars r))), (''text'', JStr (review_text r)),
           (''date'', JStr (date r))]"

definition decode_review :: "json \<Rightarrow> review option" where
  "decode_review j =
     (case j of
        JObj ps \<Rightarrow> do {
          i \<leftarrow> field ps ''id'' \<bind> json_int;
          u \<leftarrow> field ps ''user'' \<bind> json_str;
          s \<leftarrow> field ps ''stars'' \<bind> json_nat;
          t \<leftarrow> field ps ''text'' \<bind> json_str;
          d \<leftarrow> field ps ''date'' \<bind> json_str;
          Some \<lparr>review_id = i, review_user = u, stars = s, review_text = t, date = d\<rparr>
        }
      | _ \<Rightarrow> None)"

definition decode_review_list :: "json \<Rightarrow> review list option" where
  "decode_review_list j = (case j of JArr xs \<Rightarrow> those (map decode_review xs) | _ \<Rightarrow> None)"

definition encode_reviews :: "review_map \<Rightarrow> json" where
  "encode_reviews m = JObj (map (\<lambda>(k, rs). (k, JArr (map encode_review rs))) m)"

definition decode_reviews :: "json \<Rightarrow> review_map option" where
  "decode_reviews j =
     (case j of
        JObj ps \<Rightarrow> those (map (\<lambda>(k, v). map_option (Pair k) (decode_review_list v)) (obj_of_pairs ps))
      | _ \<Rightarrow> None)"

text \<open>
  C15. Toggling the same bookmark twice gives back the original set of bookmarks.
\<close>

theorem toggle_bookmark_twice_set:
  "set (toggle_bookmark i (toggle_bookmark i bs)) = set bs"
  by (auto simp: toggle_bookmark_def)

text \<open>
  C16. Toggling twice an id that is not bookmarked gives back exactly the original list.
\<close>

theorem toggle_bookmark_twice_fresh:
  "i \<notin> set bs \<Longrightarrow> toggle_bookmark i (toggle_bookmark i bs) = bs"
  by (auto simp: toggle_bookmark_def filter_id_conv)

text \<open>
  C17. Toggling twice an id that is already bookmarked does not, in general, give back the
  original list: the id is removed and appended again, so it moves to the end of the
  persisted array. For a list without duplicates the result is the list without the id
  followed by the id, and it equals the original exactly when the id was the last one.
\<close>

theorem toggle_bookmark_twice_moves:
  assumes "distinct bs" "i \<in> set bs"
  shows "toggle_bookmark i (toggle_bookmark i bs) = filter (\<lambda>j. j \<noteq> i) bs @ [i] \<and>
         (toggle_bookmark i (toggle_bookmark i bs) = bs \<longleftrightarrow> last bs = i)"
proof -
  obtain xs ys where bs: "bs = xs @ i # ys" using assms(2) by (meson split_list)
  with assms(1) have i: "i \<notin> set xs" "i \<notin> set ys" by auto
  then have "filter (\<lambda>j. j \<noteq> i) xs = xs" "filter (\<lambda>j. j \<noteq> i) ys = ys"
    by (auto simp: filter_id_conv)
  then have f: "filter (\<lambda>j. j \<noteq> i) bs = xs @ ys" by (simp add: bs)
  have t: "toggle_bookmark i (toggle_bookmark i bs) = xs @ ys @ [i]"
    using assms(2) f i by (simp add: toggle_bookmark_def)
  have "xs @ ys @ [i] = bs \<longleftrightarrow> ys = []"
    using i(2) by (cases ys) (auto simp: bs)
  moreover have "last bs = i \<longleftrightarrow> ys = []"
    using i(2) by (cases ys rule: rev_cases) (auto simp: bs)
  ultimately show ?thesis using t f by simp
qed

lemma toggle_bookmark_distinct [store_simps]:
  "distinct bs \<Longrightarrow> distinct (toggle_bookmark i bs)"
  by (simp add: toggle_bookmark_def)

lemma reviews_of_add_review [store_simps]:
  "reviews_of (add_review a rv m) = (reviews_of m)(a := rv # reviews_of m a)"
  by (simp add: fun_eq_iff add_review_def reviews_of_def map_of_obj_set)

lemma add_review_distinct [store_simps]:
  "distinct (map fst m) \<Longrightarrow> distinct (map fst (add_review a rv m))"
  by (simp add: add_review_def distinct_obj_set)

lemma bookmarks_roundtrip [store_simps]: "decode_bookmarks (encode_bookmarks bs) = Some bs"
  by (simp add: decode_bookmarks_def encode_bookmarks_def those_map_inverse)

lemma session_roundtrip [store_simps]: "decode_session (encode_session u) = Some u"
  by (cases u) (simp_all add: decode_session_def encode_session_def field_def obj_of_pairs_def)

lemma review_roundtrip: "decode_review (encode_review r) = Some r"
  by (simp add: decode_review_def encode_review_def field_def obj_of_pairs_def)

lemma review_list_roundtrip: "decode_review_list (JArr (map encode_review rs)) = Some rs"
  by (simp add: decode_review_list_def review_roundtrip those_map_inverse)

lemma reviews_roundtrip [store_simps]:
  assumes "distinct (map fst m)"
  shows "decode_reviews (encode_reviews m) = Some m"
proof -
  let ?ps = "map (\<lambda>(k, rs). (k, JArr (map encode_review rs))) m"
  have keys: "map fst ?ps = map fst m" by (induction m) auto
  then have "obj_of_pairs ?ps = ?ps" using assms by (metis obj_of_pairs_distinct)
  moreover have "those (map (\<lambda>(k, v). map_option (Pair k) (decode_review_list v)) ?ps) = Some m"
    by (induction m) (auto simp: review_list_roundtrip)
  ultimately show ?thesis by (simp add: decode_reviews_def encode_reviews_def)
qed
lemma those_pairs_keys:
  "those (map (\<lambda>(k, v). map_option (Pair k) (f v)) ps) = Some m \<Longrightarrow> map fst m = map fst ps"
proof (induction ps arbitrary: m)
  case Nil
  then show ?case by simp
next
  case (Cons p ps)
  then show ?case by (cases p) (auto split: option.splits)
qed

lemma obj_of_pairs_keys_distinct: "distinct (map fst (obj_of_pairs ps))"
proof -
  have "distinct (map fst acc) \<Longrightarrow> distinct (map fst (fold (\<lambda>(k, v) acc. obj_set acc k v) ps acc))"
    for acc :: "(string \<times> 'a) list"
  proof (induction ps arbitrary: acc)
    case Nil
    then show ?case by simp
  next
    case (Cons p ps)
    then show ?case by (cases p) (simp add: distinct_obj_set)
  qed
  then show ?thesis by (simp add: obj_of_pairs_def)
qed

lemma decode_reviews_distinct [store_simps]:
  "decode_reviews j = Some m \<Longrightarrow> distinct (map fst m)"
  by (cases j) (auto simp: decode_reviews_def dest!: those_pairs_keys intro: obj_of_pairs_keys_distinct)

theorem toggle_bookmark_twice_fresh_witness:
  "''r3'' \<notin> set [''r1'', ''r2''] \<and>
   toggle_bookmark ''r3'' (toggle_bookmark ''r3'' [''r1'', ''r2'']) = [''r1'', ''r2'']"
  using toggle_bookmark_twice_fresh [of "''r3''" "[''r1'', ''r2'']"] by simp

theorem toggle_bookmark_twice_moves_witness:
  "distinct [''r1'', ''r2''] \<and> ''r1'' \<in> set [''r1'', ''r2''] \<and>
   toggle_bookmark ''r1'' (toggle_bookmark ''r1'' [''r1'', ''r2'']) = [''r2'', ''r1''] \<and>
   toggle_bookmark ''r1'' (toggle_bookmark ''r1'' [''r1'', ''r2'']) \<noteq> [''r1'', ''r2'']"
proof -
  have h: "distinct [''r1'', ''r2'']" "''r1'' \<in> set [''r1'', ''r2'']" by simp_all
  show ?thesis using h toggle_bookmark_twice_moves [OF h] by simp
qed

end
