(* ===== verification/App.thy ===== *)
theory App
  imports Search Stores
begin

text \<open>
  The application component \<open>App\<close> of \<open>src/src/App.jsx\<close> (lines 68--166) with the
  local state of its children \<open>RestaurantDetails\<close> (lines 253--330) and \<open>Login\<close>
  (lines 332--348), as an explicit state machine.

  \<^item> State: the record \<open>app\<close> holds the seven \<open>useState\<close> cells of \<open>App\<close>
    (\<open>tab\<close>, \<open>query\<close>, \<open>filtersOpen\<close>, \<open>active\<close>, \<open>user\<close>, \<open>reviews\<close>,
    \<open>bookmarks\<close>), the review draft of \<open>RestaurantDetails\<close> (\<open>draft_text\<close>,
    \<open>draft_stars\<close>) and the form fields of \<open>Login\<close> (\<open>login_name\<close>,
    \<open>login_email\<close>).
  \<^item> Events: each child component that changes state has its own event datatype, one
    constructor per control: \<open>header_event\<close> (search input, its focus, the filter and
    login buttons of \<open>Header\<close>, lines 168--193), \<open>hero_event\<close> (the two buttons of
    \<open>Hero\<close>, lines 194--212), \<open>card_event\<close> (the details, save and photo
    buttons of a \<open>RestaurantCard\<close>, lines 223--251), \<open>details_event\<close> (back, star,
    text and post controls of \<open>RestaurantDetails\<close>), \<open>login_event\<close> (the fields and
    buttons of \<open>Login\<close>) and \<open>tabbar_event\<close> (\<open>TabBar\<close>, lines 364--375);
    \<open>modal_event\<close> (the backdrop and close button of \<open>Modal\<close>, lines 350--361,
    and the Cancel and Apply buttons of the filter panel, lines 150--161);
    \<open>ui_event\<close> adds the search tab's filter link, which \<open>App\<close> renders itself. A button the code renders without an
    \<open>onClick\<close> (the hero's "Add a review", a card's "Add photo") is an event too, whose
    handler leaves the state as it is.
  \<^item> Handlers: \<open>on_header\<close>, \<open>on_hero\<close>, \<open>on_card\<close>, \<open>on_modal\<close>,
    \<open>on_details\<close>, \<open>on_login\<close> and \<open>on_tabbar\<close> are the callbacks each child runs
    (the filter panel is a placeholder: all four of its controls only close it); \<open>app_event\<close> is the render of
    \<open>App\<close> (lines 99--165), which forwards an event only when its control is on screen
    (\<open>card_shown\<close>, \<open>details_shown\<close>, the tab tests). A disabled control
    (the text area without a user, the post button) does nothing, which is the guard
    inside the handler. \<open>settle\<close> is React's unmounting: when the details view or the
    login form leaves the screen, its local state is gone and a later mount starts from the
    initial values; \<open>app_step\<close> is one user action, \<open>app_run\<close> a sequence of them.
  \<^item> Persistence: \<open>persist\<close> is the three effects of lines 77--79 writing the stores
    after a render; \<open>app_init\<close> is the hydration of lines 69--75 (a stored value of the
    wrong shape is the error \<open>load_error\<close>); \<open>boot\<close> is the first render with its
    effects, \<open>sys_step\<close> and \<open>sys_run\<close> the application and the storage together.
    React runs an effect only when its dependency changed; writing an unchanged store
    again stores the same value, so writing all three after every step gives the same
    storage.
  \<^item> \<open>details_target\<close> is what the details view renders: nothing, a restaurant, or the
    \<open>TypeError\<close> that \<open>r.img\<close> raises when \<open>find\<close> returns \<open>undefined\<close>
    (\<open>NotFound\<close>).
  \<^item> \<open>reachable\<close> is the set of states of any session of the application, from any
    storage that hydrates; \<open>app_inv\<close> is what holds in all of them (the active id names
    a catalog restaurant, the review object has distinct keys, the draft has at most five
    stars), by rule induction.

  The lemmas come in three groups: frame lemmas saying which fields each handler and
  \<open>settle\<close> leave alone (collected in \<open>app_simps\<close>); the invariant and its
  preservation; and the claims about sessions, reviews, the details view, persistence, the
  router and the bookmarks, each with a witness at a concrete state.
\<close>

datatype tab = Home | Search | Details | Login

record app =
  tab :: tab
  query :: string
  filtersOpen :: bool
  active :: "rid option"
  user :: "session option"
  reviews :: review_map
  bookmarks :: "rid list"
  draft_text :: string
  draft_stars :: nat
  login_name :: string
  login_email :: string

datatype header_event = QueryInput string | QueryFocus | FiltersButton | LoginIcon

datatype hero_event = ExploreNow | AddReviewHero

datatype card_event = ViewDetails | SaveToggle | AddPhoto

datatype modal_event = Backdrop | CloseX | FiltersCancel | FiltersApply

datatype details_event = DetailsBack | StarClick nat | ReviewInput string | PostReview int string

datatype login_event = LoginNameInput string | LoginEmailInput string | LoginContinue | LoginCancel

datatype tabbar_event = TabHome | TabDiscover | TabReview | TabLogin

datatype ui_event =
    HeaderEv header_event
  | HeroEv hero_event
  | OpenFiltersLink
  | CardEv rid card_event
  | ModalEv modal_event
  | DetailsEv details_event
  | LoginEv login_event
  | TabBarEv tabbar_event

datatype load_error = BadUser | BadReviews | BadBookmarks

datatype render_error = NotFound

definition initial_app :: "session option \<Rightarrow> review_map \<Rightarrow> rid list \<Rightarrow> app" where
  "initial_app u rs bs =
     \<lparr>tab = Home, query = [], filtersOpen = False, active = None, user = u, reviews = rs,
      bookmarks = bs, draft_text = [], draft_stars = 0, login_name = [], login_email = []\<rparr>"

definition details_shown :: "app \<Rightarrow> bool" where
  "details_shown s \<longleftrightarrow> tab s = Details \<and> (case active s of Some a \<Rightarrow> a \<noteq> [] | None \<Rightarrow> False)"

definition card_shown :: "app \<Rightarrow> rid \<Rightarrow> bool" where
  "card_shown s i \<longleftrightarrow>
     (tab s = Home \<or> tab s = Search) \<and> i \<in> set (map rid (restaurants MOCK_RESTAURANTS (query s)))"

definition open_details :: "app \<Rightarrow> rid \<Rightarrow> app" where
  "open_details s i = s\<lparr>active := Some i, tab := Details\<rparr>"

definition post_review :: "app \<Rightarrow> int \<Rightarrow> string \<Rightarrow> app" where
  "post_review s now when =
     (case active s of
        None \<Rightarrow> s
      | Some a \<Rightarrow>
          s\<lparr>reviews := add_review a (new_review (user s) now (draft_stars s) (draft_text s) when)
                                  (reviews s),
            draft_text := [], draft_stars := 0\<rparr>)"

fun on_header :: "app \<Rightarrow> header_event \<Rightarrow> app" where
  "on_header s (QueryInput q) = s\<lparr>query := q\<rparr>"
| "on_header s QueryFocus = s\<lparr>tab := Search\<rparr>"
| "on_header s FiltersButton = s\<lparr>filtersOpen := True\<rparr>"
| "on_header s LoginIcon = s\<lparr>tab := Login\<rparr>"

fun on_hero :: "app \<Rightarrow> hero_event \<Rightarrow> app" where
  "on_hero s ExploreNow = s\<lparr>tab := Search\<rparr>"
| "on_hero s AddReviewHero = s"

fun on_card :: "app \<Rightarrow> rid \<Rightarrow> card_event \<Rightarrow> app" where
  "on_card s i ViewDetails = open_details s i"
| "on_card s i SaveToggle = s\<lparr>bookmarks := toggle_bookmark i (bookmarks s)\<rparr>"
| "on_card s i AddPhoto = s"

fun on_modal :: "app \<Rightarrow> modal_event \<Rightarrow> app" where
  "on_modal s Backdrop = s\<lparr>filtersOpen := False\<rparr>"
| "on_modal s CloseX = s\<lparr>filtersOpen := False\<rparr>"
| "on_modal s FiltersCancel = s\<lparr>filtersOpen := False\<rparr>"
| "on_modal s FiltersApply = s\<lparr>filtersOpen := False\<rparr>"

fun on_details :: "app \<Rightarrow> details_event \<Rightarrow> app" where
  "on_details s DetailsBack = s\<lparr>tab := Home\<rparr>"
| "on_details s (StarClick i) = (if 1 \<le> i \<and> i \<le> 5 then s\<lparr>draft_stars := i\<rparr> else s)"
| "on_details s (ReviewInput t) = (if user s \<noteq> None then s\<lparr>draft_text := t\<rparr> else s)"
| "on_details s (PostReview now when) =
     (if can_post (user s) (draft_stars s) (draft_text s) then post_review s now when else s)"

fun on_login :: "app \<Rightarrow> login_event \<Rightarrow> app" where
  "on_login s (LoginNameInput n) = s\<lparr>login_name := n\<rparr>"
| "on_login s (LoginEmailInput e) = s\<lparr>login_email := e\<rparr>"
| "on_login s LoginContinue =
     s\<lparr>user := Some (login_user (login_name s) (login_email s)), tab := Home\<rparr>"
| "on_login s LoginCancel = s\<lparr>tab := Home\<rparr>"

fun on_tabbar :: "app \<Rightarrow> tabbar_event \<Rightarrow> app" where
  "on_tabbar s TabHome = s\<lparr>tab := Home\<rparr>"
| "on_tabbar s TabDiscover = s\<lparr>tab := Search\<rparr>"
| "on_tabbar s TabReview = s\<lparr>tab := Details\<rparr>"
| "on_tabbar s TabLogin = s\<lparr>tab := Login\<rparr>"

fun app_event :: "app \<Rightarrow> ui_event \<Rightarrow> app" where
  "app_event s (HeaderEv h) = on_header s h"
| "app_event s (HeroEv h) = (if tab s = Home then on_hero s h else s)"
| "app_event s OpenFiltersLink = (if tab s = Search then s\<lparr>filtersOpen := True\<rparr> else s)"
| "app_event s (CardEv i c) = (if card_shown s i then on_card s i c else s)"
| "app_event s (ModalEv m) = (if filtersOpen s then on_modal s m else s)"
| "app_event s (DetailsEv d) = (if details_shown s then on_details s d else s)"
| "app_event s (LoginEv l) = (if tab s = Login then on_login s l else s)"
| "app_event s (TabBarEv t) = on_tabbar s t"

definition settle :: "app \<Rightarrow> app" where
  "settle s =
     (let s1 = (if details_shown s then s else s\<lparr>draft_text := [], draft_stars := 0\<rparr>)
      in if tab s1 = Login then s1 else s1\<lparr>login_name := [], login_email := []\<rparr>)"

definition app_step :: "app \<Rightarrow> ui_event \<Rightarrow> app" where
  "app_step s e = settle (app_event s e)"

fun app_run :: "app \<Rightarrow> ui_event list \<Rightarrow> app" where
  "app_run s [] = s"
| "app_run s (e # es) = app_run (app_step s e) es"

definition details_target :: "app \<Rightarrow> render_error + restaurant option" where
  "details_target s =
     (if details_shown s
      then (case active s of
              None \<Rightarrow> Inr None
            | Some a \<Rightarrow> (case find_restaurant MOCK_RESTAURANTS a of
                           None \<Rightarrow> Inl NotFound
                         | Some r \<Rightarrow> Inr (Some r)))
      else Inr None)"

definition persist :: "app \<Rightarrow> storage \<Rightarrow> storage" where
  "persist s st =
     saveLocal (saveLocal (saveLocal st ''nom_reviews'' (encode_reviews (reviews s)))
                          ''nom_bookmarks'' (encode_bookmarks (bookmarks s)))
               ''nom_user'' (encode_session (user s))"

definition app_init :: "storage \<Rightarrow> load_error + app" where
  "app_init st =
     (case decode_session (loadLocal st ''nom_user'' JNull) of
        None \<Rightarrow> Inl BadUser
      | Some u \<Rightarrow>
          (case decode_reviews (loadLocal st ''nom_reviews'' (JObj [])) of
             None \<Rightarrow> Inl BadReviews
           | Some rs \<Rightarrow>
               (case decode_bookmarks (loadLocal st ''nom_bookmarks'' (JArr [])) of
                  None \<Rightarrow> Inl BadBookmarks
                | Some bs \<Rightarrow> Inr (initial_app u rs bs))))"

definition boot :: "storage \<Rightarrow> load_error + app \<times> storage" where
  "boot st = (case app_init st of Inl e \<Rightarrow> Inl e | Inr s \<Rightarrow> Inr (s, persist s st))"

definition sys_step :: "app \<times> storage \<Rightarrow> ui_event \<Rightarrow> app \<times> storage" where
  "sys_step w e = (let s' = app_step (fst w) e in (s', persist s' (snd w)))"

fun sys_run :: "app \<times> storage \<Rightarrow> ui_event list \<Rightarrow> app \<times> storage" where
  "sys_run w [] = w"
| "sys_run w (e # es) = sys_run (sys_step w e) es"

inductive reachable :: "app \<Rightarrow> bool" where
  start: "app_init st = Inr s \<Longrightarrow> reachable s"
| step: "reachable s \<Longrightarrow> reachable (app_step s e)"

definition app_inv :: "app \<Rightarrow> bool" where
  "app_inv s \<longleftrightarrow>
     (\<forall>a. active s = Some a \<longrightarrow> a \<in> catalog_ids MOCK_RESTAURANTS) \<and>
     distinct (map fst (reviews s)) \<and> draft_stars s \<le> 5"

lemma settle_frame [app_simps]:
  "tab (settle s) = tab s" "query (settle s) = query s" "filtersOpen (settle s) = filtersOpen s"
  "active (settle s) = active s" "user (settle s) = user s" "reviews (settle s) = reviews s"
  "bookmarks (settle s) = bookmarks s"
  by (simp_all add: settle_def Let_def)

lemma on_header_frame [app_simps]:
  "active (on_header s h) = active s \<and> user (on_header s h) = user s \<and>
   reviews (on_header s h) = reviews s \<and> bookmarks (on_header s h) = bookmarks s \<and>
   draft_stars (on_header s h) = draft_stars s"
  by (cases h) simp_all

lemma on_hero_frame [app_simps]:
  "active (on_hero s h) = active s \<and> user (on_hero s h) = user s \<and>
   reviews (on_hero s h) = reviews s \<and> bookmarks (on_hero s h) = bookmarks s \<and>
   draft_stars (on_hero s h) = draft_stars s"
  by (cases h) simp_all

lemma on_modal_closes [app_simps]:
  "on_modal s m = s\<lparr>filtersOpen := False\<rparr>"
  by (cases m) simp_all

lemma on_tabbar_frame [app_simps]:
  "active (on_tabbar s t) = active s \<and> user (on_tabbar s t) = user s \<and>
   reviews (on_tabbar s t) = reviews s \<and> bookmarks (on_tabbar s t) = bookmarks s \<and>
   draft_stars (on_tabbar s t) = draft_stars s"
  by (cases t) simp_all

lemma on_card_frame [app_simps]:
  "user (on_card s i c) = user s \<and> reviews (on_card s i c) = reviews s \<and>
   draft_stars (on_card s i c) = draft_stars s \<and>
   active (on_card s i c) = (if c = ViewDetails then Some i else active s) \<and>
   bookmarks (on_card s i c) = (if c = SaveToggle then toggle_bookmark i (bookmarks s) else bookmarks s)"
  by (cases c) (simp_all add: open_details_def)

lemma on_login_frame [app_simps]:
  "active (on_login s l) = active s \<and> reviews (on_login s l) = reviews s \<and>
   bookmarks (on_login s l) = bookmarks s \<and> draft_stars (on_login s l) = draft_stars s \<and>
   user (on_login s l) =
     (if l = LoginContinue then Some (login_user (login_name s) (login_email s)) else user s)"
  by (cases l) simp_all

lemma on_details_frame [app_simps]:
  "active (on_details s d) = active s \<and> user (on_details s d) = user s \<and>
   bookmarks (on_details s d) = bookmarks s"
  by (cases d) (simp_all add: post_review_def split: option.splits)

lemma reviews_on_details [app_simps]:
  "reviews (on_details s d) =
     (case d of
        PostReview now w \<Rightarrow>
          (if can_post (user s) (draft_stars s) (draft_text s)
           then reviews (post_review s now w) else reviews s)
      | _ \<Rightarrow> reviews s)"
  by (cases d) simp_all

lemma draft_stars_on_details: "draft_stars s \<le> 5 \<Longrightarrow> draft_stars (on_details s d) \<le> 5"
  by (cases d) (simp_all add: post_review_def split: option.splits)

lemma user_app_step [app_simps]:
  "user (app_step s e) =
     (if e = LoginEv LoginContinue \<and> tab s = Login
      then Some (login_user (login_name s) (login_email s)) else user s)"
  by (cases e) (auto simp: app_step_def app_simps)

lemma can_post_None [app_simps]: "\<not> can_post None st t"
  by (simp add: can_post_def)

lemma card_shown_catalog: "card_shown s i \<Longrightarrow> i \<in> catalog_ids MOCK_RESTAURANTS"
  by (auto simp: card_shown_def catalog_ids_def dest: restaurants_subset)

lemma active_app_step [app_simps]:
  "active (app_step s e) =
     (case e of CardEv i ViewDetails \<Rightarrow> if card_shown s i then Some i else active s
      | _ \<Rightarrow> active s)"
  by (cases e) (auto simp: app_step_def app_simps split: card_event.splits)

lemma reviews_app_step_distinct:
  "distinct (map fst (reviews s)) \<Longrightarrow> distinct (map fst (reviews (app_step s e)))"
  by (cases e)
     (auto simp: app_step_def app_simps post_review_def add_review_distinct
           split: details_event.splits option.splits)

lemma draft_stars_app_step: "draft_stars s \<le> 5 \<Longrightarrow> draft_stars (app_step s e) \<le> 5"
proof -
  assume a: "draft_stars s \<le> 5"
  have "draft_stars (app_event s e) \<le> 5"
    using a by (cases e) (auto simp: app_simps draft_stars_on_details)
  moreover have "draft_stars (settle t) \<le> draft_stars t" for t
    by (simp add: settle_def Let_def)
  ultimately show ?thesis by (metis app_step_def order_trans)
qed

lemma app_inv_step: "app_inv s \<Longrightarrow> app_inv (app_step s e)"
  unfolding app_inv_def
  by (auto simp: active_app_step reviews_app_step_distinct draft_stars_app_step card_shown_catalog
           split: ui_event.splits card_event.splits if_splits)

lemma app_init_Inr:
  "app_init st = Inr s \<Longrightarrow>
     \<exists>u rs bs. s = initial_app u rs bs \<and> decode_reviews (loadLocal st ''nom_reviews'' (JObj [])) = Some rs"
  by (auto simp: app_init_def split: option.splits)

lemma app_inv_init: "app_init st = Inr s \<Longrightarrow> app_inv s"
  by (auto simp: app_inv_def initial_app_def dest!: app_init_Inr decode_reviews_distinct)

lemma reachable_app_inv: "reachable s \<Longrightarrow> app_inv s"
proof (induction rule: reachable.induct)
  case (start st s)
  then show ?case by (rule app_inv_init)
next
  case (step s e)
  from step.IH show ?case by (rule app_inv_step)
qed

lemma app_init_empty: "app_init Map.empty = Inr (initial_app None [] [])"
  by (simp add: app_init_def loadLocal_def decode_session_def decode_reviews_def
                obj_of_pairs_def decode_bookmarks_def)

lemma encode_not_null [store_simps]:
  "encode_reviews m \<noteq> JNull" "encode_bookmarks bs \<noteq> JNull"
  by (simp_all add: encode_reviews_def encode_bookmarks_def)

lemma app_init_persist:
  assumes "distinct (map fst (reviews s))"
  shows "app_init (persist s st) = Inr (initial_app (user s) (reviews s) (bookmarks s))"
proof -
  have u: "loadLocal (persist s st) ''nom_user'' JNull = encode_session (user s)"
    by (cases "user s") (simp_all add: persist_def loadLocal_def saveLocal_def encode_session_def)
  have r: "loadLocal (persist s st) ''nom_reviews'' (JObj []) = encode_reviews (reviews s)"
    by (simp add: persist_def loadLocal_def saveLocal_def encode_reviews_def)
  have b: "loadLocal (persist s st) ''nom_bookmarks'' (JArr []) = encode_bookmarks (bookmarks s)"
    by (simp add: persist_def loadLocal_def saveLocal_def encode_bookmarks_def)
  show ?thesis
    using assms by (simp add: app_init_def u r b session_roundtrip reviews_roundtrip bookmarks_roundtrip)
qed

lemma sys_run_fst: "fst (sys_run w es) = app_run (fst w) es"
  by (induction es arbitrary: w) (simp_all add: sys_step_def Let_def)

lemma sys_run_persisted:
  "reachable (fst w) \<Longrightarrow> snd w = persist (fst w) st0 \<Longrightarrow>
     reachable (fst (sys_run w es)) \<and> (\<exists>st. snd (sys_run w es) = persist (fst (sys_run w es)) st)"
proof (induction es arbitrary: w st0)
  case Nil
  then show ?case by auto
next
  case (Cons e es)
  have "reachable (fst (sys_step w e))"
    using Cons.prems(1) by (simp add: sys_step_def Let_def reachable.step)
  moreover have "snd (sys_step w e) = persist (fst (sys_step w e)) (snd w)"
    by (simp add: sys_step_def Let_def)
  ultimately show ?case using Cons.IH by simp
qed

lemma reviews_app_step_post:
  assumes "details_shown s" and "active s = Some a"
    and "can_post (user s) (draft_stars s) (draft_text s)"
  shows "reviews (app_step s (DetailsEv (PostReview now w))) =
           add_review a (new_review (user s) now (draft_stars s) (draft_text s) w) (reviews s)"
  using assms by (simp add: app_step_def app_simps post_review_def)

lemma reviews_app_step_cases:
  "reviews (app_step s e) = reviews s \<or>
   (\<exists>now w a. e = DetailsEv (PostReview now w) \<and> details_shown s \<and> active s = Some a \<and>
      can_post (user s) (draft_stars s) (draft_text s) \<and>
      reviews (app_step s e) = add_review a (new_review (user s) now (draft_stars s) (draft_text s) w) (reviews s))"
  by (cases e)
     (auto simp: app_step_def app_simps post_review_def split: details_event.splits option.splits)

lemma bookmarks_app_step [app_simps]:
  "bookmarks (app_step s e) =
     (case e of CardEv i SaveToggle \<Rightarrow> if card_shown s i then toggle_bookmark i (bookmarks s) else bookmarks s
      | _ \<Rightarrow> bookmarks s)"
  by (cases e) (auto simp: app_step_def app_simps split: card_event.splits)

lemma bookmarks_distinct_app_step:
  "distinct (bookmarks s) \<Longrightarrow> distinct (bookmarks (app_step s e))"
  by (auto simp: bookmarks_app_step toggle_bookmark_distinct split: ui_event.splits card_event.splits)

lemma bookmarks_app_step_subset:
  "set (bookmarks (app_step s e)) \<subseteq> set (bookmarks s) \<union> catalog_ids MOCK_RESTAURANTS"
  by (auto simp: bookmarks_app_step toggle_bookmark_def dest: card_shown_catalog
           split: ui_event.splits card_event.splits if_splits)

lemma reviews_of_step_suffix:
  "suffix (reviews_of (reviews s) a) (reviews_of (reviews (app_step s e)) a)"
  using reviews_app_step_cases [of s e]
  by (auto simp: reviews_of_add_review intro: suffix_ConsI)

lemma asha_state_facts:
  "details_shown ((initial_app (Some (login_user ''Asha'' ''a@x.com'')) [] [])
      \<lparr>tab := Details, active := Some ''r1'', draft_stars := 4, draft_text := ''Loved it here''\<rparr>)"
  "can_post (Some (login_user ''Asha'' ''a@x.com'')) 4 ''Loved it here''"
  by (simp add: details_shown_def initial_app_def) code_simp

lemma initial_cards: "card_shown (initial_app u rs bs) i \<longleftrightarrow> i \<in> {''r1'', ''r2'', ''r3''}"
  by (simp add: card_shown_def initial_app_def restaurants_def norm_query_def js_trim_def mock_ids)

text \<open>
  C1. A review is never added without a session: when no user is logged in, no event changes the review store (the post button is disabled when \<open>!user\<close>).
\<close>

theorem no_review_without_session:
  "user s = None \<Longrightarrow> reviews (app_step s e) = reviews s"
  by (cases e) (auto simp: app_step_def app_simps split: details_event.splits)

theorem no_review_without_session_witness:
  "user (initial_app None [] []\<lparr>tab := Details, active := Some ''r1'', draft_stars := 4,
                                draft_text := ''Great food''\<rparr>) = None \<and>
   reviews (app_step (initial_app None [] []\<lparr>tab := Details, active := Some ''r1'',
                        draft_stars := 4, draft_text := ''Great food''\<rparr>) (DetailsEv (PostReview 1 ''d''))) = []"
  using no_review_without_session [of "initial_app None [] []\<lparr>tab := Details, active := Some ''r1'',
                        draft_stars := 4, draft_text := ''Great food''\<rparr>" "DetailsEv (PostReview 1 ''d'')"]
  by (simp add: initial_app_def)

text \<open>
  C2. For every sequence of events that contains no successful login, a session that starts without a user ends with the review store it started with.
\<close>

theorem no_review_without_login_run:
  "user s = None \<Longrightarrow> LoginEv LoginContinue \<notin> set es \<Longrightarrow> reviews (app_run s es) = reviews s"
proof (induction es arbitrary: s)
  case Nil
  then show ?case by simp
next
  case (Cons e es)
  then have "user (app_step s e) = None" by (auto simp: user_app_step)
  moreover have "reviews (app_step s e) = reviews s"
    using reviews_app_step_cases [of s e] Cons.prems(1) by (auto simp: can_post_None)
  ultimately show ?case using Cons by simp
qed

theorem no_review_without_login_run_witness:
  "user (initial_app None [] []) = None \<and>
   LoginEv LoginContinue \<notin> set [CardEv ''r1'' ViewDetails, DetailsEv (StarClick 5),
     DetailsEv (ReviewInput ''Great food''), DetailsEv (PostReview 1 ''d'')] \<and>
   reviews (app_run (initial_app None [] []) [CardEv ''r1'' ViewDetails, DetailsEv (StarClick 5),
     DetailsEv (ReviewInput ''Great food''), DetailsEv (PostReview 1 ''d'')]) = []"
proof -
  have h1: "user (initial_app None [] []) = None" by (simp add: initial_app_def)
  have h2: "LoginEv LoginContinue \<notin> set [CardEv ''r1'' ViewDetails, DetailsEv (StarClick 5),
     DetailsEv (ReviewInput ''Great food''), DetailsEv (PostReview 1 ''d'')]" by simp
  have "reviews (initial_app None [] []) = []" by (simp add: initial_app_def)
  with no_review_without_login_run [OF h1 h2] h1 h2 show ?thesis by simp
qed

text \<open>
  C3. Every change of the review store by one event is the addition of one review, for a restaurant of the catalog, by a logged-in user, with 1 to 5 stars and a text of at least 5 characters after trimming.
\<close>

theorem review_change_is_valid_post:
  assumes "app_inv s" and "reviews (app_step s e) \<noteq> reviews s"
  shows "\<exists>a r. reviews (app_step s e) = add_review a r (reviews s) \<and>
           a \<in> catalog_ids MOCK_RESTAURANTS \<and> user s \<noteq> None \<and>
           1 \<le> stars r \<and> stars r \<le> 5 \<and> 5 \<le> length (js_trim (review_text r))"
proof -
  from reviews_app_step_cases [of s e] assms(2) obtain now w a where
    post: "details_shown s" "active s = Some a" "can_post (user s) (draft_stars s) (draft_text s)"
    and eq: "reviews (app_step s e) =
               add_review a (new_review (user s) now (draft_stars s) (draft_text s) w) (reviews s)"
    by blast
  let ?r = "new_review (user s) now (draft_stars s) (draft_text s) w"
  from assms(1) post(2) have "a \<in> catalog_ids MOCK_RESTAURANTS" by (simp add: app_inv_def)
  moreover from assms(1) have "draft_stars s \<le> 5" by (simp add: app_inv_def)
  then have "user s \<noteq> None \<and> 1 \<le> stars ?r \<and> stars ?r \<le> 5 \<and> 5 \<le> length (js_trim (review_text ?r))"
    using post(3) by (simp add: can_post_def new_review_def)
  ultimately show ?thesis using eq by blast
qed

theorem review_change_is_valid_post_witness:
  "app_inv ((initial_app (Some (login_user ''Asha'' ''a@x.com'')) [] [])
      \<lparr>tab := Details, active := Some ''r1'', draft_stars := 4, draft_text := ''Loved it here''\<rparr>) \<and>
   reviews (app_step ((initial_app (Some (login_user ''Asha'' ''a@x.com'')) [] [])
      \<lparr>tab := Details, active := Some ''r1'', draft_stars := 4, draft_text := ''Loved it here''\<rparr>)
      (DetailsEv (PostReview 1 ''d''))) \<noteq> [] \<and>
   (\<exists>a r. reviews (app_step ((initial_app (Some (login_user ''Asha'' ''a@x.com'')) [] [])
      \<lparr>tab := Details, active := Some ''r1'', draft_stars := 4, draft_text := ''Loved it here''\<rparr>)
      (DetailsEv (PostReview 1 ''d''))) = add_review a r [] \<and>
      a \<in> catalog_ids MOCK_RESTAURANTS \<and>
      user ((initial_app (Some (login_user ''Asha'' ''a@x.com'')) [] [])
      \<lparr>tab := Details, active := Some ''r1'', draft_stars := 4, draft_text := ''Loved it here''\<rparr>) \<noteq> None \<and>
      1 \<le> stars r \<and> stars r \<le> 5 \<and> 5 \<le> length (js_trim (review_text r)))"
proof -
  let ?s = "(initial_app (Some (login_user ''Asha'' ''a@x.com'')) [] [])
      \<lparr>tab := Details, active := Some ''r1'', draft_stars := 4, draft_text := ''Loved it here''\<rparr>"
  have inv: "app_inv ?s" by (simp add: app_inv_def initial_app_def catalog_ids_def mock_ids)
  have cp: "can_post (user ?s) (draft_stars ?s) (draft_text ?s)"
    using asha_state_facts(2) by (simp add: initial_app_def)
  have ch: "reviews (app_step ?s (DetailsEv (PostReview 1 ''d''))) \<noteq> []"
    using reviews_app_step_post [OF asha_state_facts(1) _ cp, of "''r1''" 1 "''d''"]
    by (simp add: initial_app_def add_review_def reviews_of_def)
  have "reviews ?s = []" by (simp add: initial_app_def)
  with review_change_is_valid_post [OF inv, of "DetailsEv (PostReview 1 ''d'')"] inv ch
  show ?thesis by simp
qed

text \<open>
  C4. Posting a review from the details view of restaurant \<open>a\<close> puts the new review, built from the session and the draft, first in the list of \<open>a\<close>, in front of the previous ones (the list grows by exactly one).
\<close>

theorem post_review_prepends:
  assumes "details_shown s" and "active s = Some a"
    and "can_post (user s) (draft_stars s) (draft_text s)"
  shows "reviews_of (reviews (app_step s (DetailsEv (PostReview now w)))) a =
           new_review (user s) now (draft_stars s) (draft_text s) w # reviews_of (reviews s) a"
  using reviews_app_step_post [OF assms] by (simp add: reviews_of_add_review)

theorem post_review_prepends_witness:
  "reviews_of (reviews (app_step ((initial_app (Some (login_user ''Asha'' ''a@x.com'')) [] [])
      \<lparr>tab := Details, active := Some ''r1'', draft_stars := 4, draft_text := ''Loved it here''\<rparr>)
      (DetailsEv (PostReview 1700000000000 ''2026-11-09T00:00:00.000Z'')))) ''r1'' =
   [new_review (Some (login_user ''Asha'' ''a@x.com'')) 1700000000000 4 ''Loved it here''
      ''2026-11-09T00:00:00.000Z'']"
proof -
  let ?s = "(initial_app (Some (login_user ''Asha'' ''a@x.com'')) [] [])
      \<lparr>tab := Details, active := Some ''r1'', draft_stars := 4, draft_text := ''Loved it here''\<rparr>"
  have "can_post (user ?s) (draft_stars ?s) (draft_text ?s)"
    using asha_state_facts(2) by (simp add: initial_app_def)
  from post_review_prepends [OF asha_state_facts(1) _ this, of "''r1''"]
  show ?thesis by (simp add: initial_app_def reviews_of_def)
qed

text \<open>
  C5. In every reachable state the details view never hits the missing-restaurant case: the active id, when the view is shown, always names a restaurant of the catalog, so \<open>r.img\<close> never reads \<open>undefined\<close>.
\<close>

theorem details_never_not_found:
  "reachable s \<Longrightarrow> details_target s \<noteq> Inl NotFound"
proof -
  assume "reachable s"
  then have "app_inv s" by (rule reachable_app_inv)
  then show ?thesis
    by (auto simp: details_target_def app_inv_def find_restaurant_Some_iff [symmetric]
             split: option.splits)
qed

theorem details_never_not_found_witness:
  "reachable (app_step (initial_app None [] []) (CardEv ''r1'' ViewDetails)) \<and>
   details_target (app_step (initial_app None [] []) (CardEv ''r1'' ViewDetails)) \<noteq> Inl NotFound"
proof -
  have r: "reachable (app_step (initial_app None [] []) (CardEv ''r1'' ViewDetails))"
    by (rule reachable.step [OF reachable.start [OF app_init_empty]])
  show ?thesis using r details_never_not_found [OF r] by simp
qed

text \<open>
  C6. After the first render and any sequence of events, restarting the application from the storage it has written restores the session, the reviews and the bookmarks of the last state, with the transient view state reset.
\<close>

theorem restart_restores_stores:
  assumes "boot st = Inr w"
  shows "app_init (snd (sys_run w es)) =
           Inr (initial_app (user (app_run (fst w) es)) (reviews (app_run (fst w) es))
                            (bookmarks (app_run (fst w) es)))"
proof -
  from assms obtain s where s: "app_init st = Inr s" and w: "w = (s, persist s st)"
    by (auto simp: boot_def split: sum.splits)
  then have "reachable (fst w)" and "snd w = persist (fst w) st"
    by (auto intro: reachable.start)
  then have "reachable (fst (sys_run w es))" and "\<exists>st'. snd (sys_run w es) = persist (fst (sys_run w es)) st'"
    using sys_run_persisted by blast+
  moreover from this(1) have "distinct (map fst (reviews (fst (sys_run w es))))"
    by (auto dest: reachable_app_inv simp: app_inv_def)
  ultimately show ?thesis by (auto simp: app_init_persist sys_run_fst)
qed

theorem restart_restores_stores_witness:
  "boot Map.empty = Inr (initial_app None [] [], persist (initial_app None [] []) Map.empty) \<and>
   app_init (snd (sys_run (initial_app None [] [], persist (initial_app None [] []) Map.empty)
                          [TabBarEv TabLogin])) =
     Inr (initial_app (user (app_run (initial_app None [] []) [TabBarEv TabLogin]))
                      (reviews (app_run (initial_app None [] []) [TabBarEv TabLogin]))
                      (bookmarks (app_run (initial_app None [] []) [TabBarEv TabLogin])))"
proof -
  have b: "boot Map.empty = Inr (initial_app None [] [], persist (initial_app None [] []) Map.empty)"
    by (simp add: boot_def app_init_empty)
  from restart_restores_stores [OF b, of "[TabBarEv TabLogin]"] b show ?thesis by simp
qed

text \<open>
  C7. Once a user is logged in, no event logs them out: the session is never cleared.
\<close>

theorem session_persists:
  "user s \<noteq> None \<Longrightarrow> user (app_step s e) \<noteq> None"
  by (simp add: user_app_step)

theorem session_persists_witness:
  "user (initial_app (Some (login_user ''Asha'' ''a@x.com'')) [] []) \<noteq> None \<and>
   user (app_step (initial_app (Some (login_user ''Asha'' ''a@x.com'')) [] []) (TabBarEv TabLogin)) \<noteq> None"
  using session_persists [of "initial_app (Some (login_user ''Asha'' ''a@x.com'')) [] []" "TabBarEv TabLogin"]
  by (simp add: initial_app_def)

text \<open>
  C8. Opening a rendered restaurant card selects that restaurant and switches to the details tab.
\<close>

theorem view_details_from_card:
  "card_shown s i \<Longrightarrow>
     tab (app_step s (CardEv i ViewDetails)) = Details \<and> active (app_step s (CardEv i ViewDetails)) = Some i"
  by (simp add: app_step_def app_simps open_details_def)

theorem view_details_from_card_witness:
  "card_shown (initial_app None [] []) ''r1'' \<and>
   tab (app_step (initial_app None [] []) (CardEv ''r1'' ViewDetails)) = Details \<and>
   active (app_step (initial_app None [] []) (CardEv ''r1'' ViewDetails)) = Some ''r1''"
  using view_details_from_card [of "initial_app None [] []" "''r1''"] by (simp add: initial_cards)

text \<open>
  C9. The save button of a rendered card flips the bookmark of exactly that restaurant and leaves every other bookmark as it was.
\<close>

theorem save_toggle_flips:
  "card_shown s i \<Longrightarrow>
     is_bookmarked (bookmarks (app_step s (CardEv i SaveToggle))) j =
       (if j = i then \<not> is_bookmarked (bookmarks s) i else is_bookmarked (bookmarks s) j)"
  by (auto simp: bookmarks_app_step is_bookmarked_def toggle_bookmark_def)

theorem save_toggle_flips_witness:
  "card_shown (initial_app None [] [''r1'']) ''r1'' \<and>
   is_bookmarked (bookmarks (app_step (initial_app None [] [''r1'']) (CardEv ''r1'' SaveToggle))) ''r1'' = False"
proof -
  have c: "card_shown (initial_app None [] [''r1'']) ''r1''" by (simp add: initial_cards)
  from save_toggle_flips [OF c, of "''r1''"] c show ?thesis
    by (simp add: initial_app_def is_bookmarked_def)
qed

text \<open>
  C10. No sequence of events introduces a duplicate into a duplicate-free bookmark list.
\<close>

theorem bookmarks_distinct_run:
  "distinct (bookmarks s) \<Longrightarrow> distinct (bookmarks (app_run s es))"
  by (induction es arbitrary: s) (simp_all add: bookmarks_distinct_app_step)

theorem bookmarks_distinct_run_witness:
  "distinct (bookmarks (initial_app None [] [''r2''])) \<and>
   distinct (bookmarks (app_run (initial_app None [] [''r2''])
     [CardEv ''r1'' SaveToggle, CardEv ''r2'' SaveToggle, CardEv ''r1'' SaveToggle, CardEv ''r2'' SaveToggle]))"
  using bookmarks_distinct_run [of "initial_app None [] [''r2'']"
     "[CardEv ''r1'' SaveToggle, CardEv ''r2'' SaveToggle, CardEv ''r1'' SaveToggle, CardEv ''r2'' SaveToggle]"]
  by (simp add: initial_app_def)

text \<open>
  C20. Absent, unparsable or \<open>null\<close> stored data falls back to the documented defaults: no
  session, no reviews, no bookmarks, on the home tab.
\<close>

theorem app_init_fallback:
  assumes "\<forall>k \<in> {''nom_user'', ''nom_reviews'', ''nom_bookmarks''}.
             st k = None \<or> st k = Some Unparsable \<or> st k = Some (Parsed JNull)"
  shows "app_init st = Inr (initial_app None [] [])"
proof -
  from assms have "loadLocal st ''nom_user'' JNull = JNull"
    and "loadLocal st ''nom_reviews'' (JObj []) = JObj []"
    and "loadLocal st ''nom_bookmarks'' (JArr []) = JArr []"
    by (auto simp: loadLocal_def)
  then show ?thesis
    by (simp add: app_init_def decode_session_def decode_reviews_def obj_of_pairs_def
                  decode_bookmarks_def)
qed

theorem app_init_fallback_witness:
  "(\<lambda>k. Some Unparsable) ''nom_user'' = Some Unparsable \<and>
   (\<lambda>k. Some Unparsable) ''nom_reviews'' = Some Unparsable \<and>
   (\<lambda>k. Some Unparsable) ''nom_bookmarks'' = Some Unparsable \<and>
   app_init (\<lambda>k. Some Unparsable) = Inr (initial_app None [] [])"
proof -
  have "\<forall>k \<in> {''nom_user'', ''nom_reviews'', ''nom_bookmarks''}.
          (\<lambda>k. Some Unparsable) k = None \<or> (\<lambda>k. Some Unparsable) k = Some Unparsable \<or>
          (\<lambda>k. Some Unparsable) k = Some (Parsed JNull)"
    by simp
  from app_init_fallback [OF this] show ?thesis by simp
qed

text \<open>
  C23. The review store is append-only: over any sequence of events, the reviews of every
  restaurant at the start remain, unchanged and in order, at the end of its list.
\<close>

theorem reviews_append_only:
  "suffix (reviews_of (reviews s) a) (reviews_of (reviews (app_run s es)) a)"
proof (induction es arbitrary: s)
  case Nil
  then show ?case by simp
next
  case (Cons e es)
  from reviews_of_step_suffix [of s a e] Cons.IH [of "app_step s e"]
  show ?case by (simp add: suffix_order.order_trans)
qed

text \<open>
  C24. The user interface only bookmarks restaurants of the catalog: after any sequence of
  events every bookmark was either read from storage at the start or is a catalog
  restaurant (stale ids read from storage are kept, never created).
\<close>

theorem bookmark_additions_in_catalog:
  "set (bookmarks (app_run s es)) \<subseteq> set (bookmarks s) \<union> catalog_ids MOCK_RESTAURANTS"
proof (induction es arbitrary: s)
  case Nil
  then show ?case by simp
next
  case (Cons e es)
  have "set (bookmarks (app_run (app_step s e) es)) \<subseteq>
          set (bookmarks (app_step s e)) \<union> catalog_ids MOCK_RESTAURANTS"
    by (rule Cons.IH)
  with bookmarks_app_step_subset [of s e] show ?case by auto
qed

end
