(* ===== verification/Refinement.thy ===== *)
theory Refinement
  imports App
begin

text \<open>
  An abstract specification of what the application promises about its persisted data, and
  the proof that the state machine of \<open>App\<close> implements it.

  The abstract state \<open>abs_state\<close> forgets the view (tab, query, panels, drafts) and the
  representation of the stores: the session, the reviews as a total map from restaurant
  ids to lists (newest first), and the bookmarks as a set. An abstract operation
  (\<open>abs_op\<close>) is a login, the post of one review, the toggle of one bookmark, or nothing;
  \<open>abs_step\<close> applies it and refuses (\<open>None\<close>) a post without a session, for a
  restaurant outside the catalog or with a star count outside 1..5, and a toggle of an id
  outside the catalog. \<open>abs_of\<close> is the abstraction of a concrete state and
  \<open>abs_event\<close> names the abstract operation a concrete event performs. The lemma
  \<open>app_step_simulates\<close> is the forward simulation of one step under \<open>app_inv\<close>;
  \<open>app_run_refines\<close> lifts it to every run from a reachable state: the run of the
  application is an accepted run of the abstract machine.
\<close>

record abs_state =
  a_user :: "session option"
  a_reviews :: "rid \<Rightarrow> review list"
  a_bookmarks :: "rid set"

datatype abs_op = ALogin session | APost rid review | AToggle rid | ANone

fun abs_step :: "abs_state \<Rightarrow> abs_op \<Rightarrow> abs_state option" where
  "abs_step a (ALogin u) = Some (a\<lparr>a_user := Some u\<rparr>)"
| "abs_step a (APost i r) =
     (if a_user a \<noteq> None \<and> i \<in> catalog_ids MOCK_RESTAURANTS \<and> 1 \<le> stars r \<and> stars r \<le> 5
      then Some (a\<lparr>a_reviews := (a_reviews a)(i := r # a_reviews a i)\<rparr>) else None)"
| "abs_step a (AToggle i) =
     (if i \<in> catalog_ids MOCK_RESTAURANTS
      then Some (a\<lparr>a_bookmarks :=
                      (if i \<in> a_bookmarks a then a_bookmarks a - {i} else insert i (a_bookmarks a))\<rparr>)
      else None)"
| "abs_step a ANone = Some a"

fun abs_run :: "abs_state \<Rightarrow> abs_op list \<Rightarrow> abs_state option" where
  "abs_run a [] = Some a"
| "abs_run a (op # ops) = (case abs_step a op of None \<Rightarrow> None | Some a' \<Rightarrow> abs_run a' ops)"

definition abs_of :: "app \<Rightarrow> abs_state" where
  "abs_of s = \<lparr>a_user = user s, a_reviews = reviews_of (reviews s), a_bookmarks = set (bookmarks s)\<rparr>"

fun abs_event :: "app \<Rightarrow> ui_event \<Rightarrow> abs_op" where
  "abs_event s (LoginEv LoginContinue) =
     (if tab s = Login then ALogin (login_user (login_name s) (login_email s)) else ANone)"
| "abs_event s (DetailsEv (PostReview now w)) =
     (if details_shown s \<and> can_post (user s) (draft_stars s) (draft_text s)
      then (case active s of
              Some a \<Rightarrow> APost a (new_review (user s) now (draft_stars s) (draft_text s) w)
            | None \<Rightarrow> ANone)
      else ANone)"
| "abs_event s (CardEv i SaveToggle) = (if card_shown s i then AToggle i else ANone)"
| "abs_event s _ = ANone"

fun abs_events :: "app \<Rightarrow> ui_event list \<Rightarrow> abs_op list" where
  "abs_events s [] = []"
| "abs_events s (e # es) = abs_event s e # abs_events (app_step s e) es"

lemma app_step_simulates:
  assumes "app_inv s"
  shows "abs_step (abs_of s) (abs_event s e) = Some (abs_of (app_step s e))"
proof (cases e)
  case (DetailsEv d)
  show ?thesis
  proof (cases d)
    case (PostReview now w)
    show ?thesis
    proof (cases "details_shown s \<and> can_post (user s) (draft_stars s) (draft_text s)")
      case True
      then obtain a where a: "active s = Some a"
        by (auto simp: details_shown_def split: option.splits)
      with assms have "a \<in> catalog_ids MOCK_RESTAURANTS" "draft_stars s \<le> 5"
        by (auto simp: app_inv_def)
      with True a DetailsEv PostReview show ?thesis
        by (auto simp: abs_of_def reviews_app_step_post reviews_of_add_review can_post_def
                       new_review_def user_app_step bookmarks_app_step)
    next
      case False
      with DetailsEv PostReview show ?thesis
        by (auto simp: abs_of_def app_step_def app_simps)
    qed
  qed (auto simp: DetailsEv abs_of_def app_step_def app_simps)
next
  case (CardEv i c)
  then show ?thesis
    by (cases c) (auto simp: abs_of_def toggle_bookmark_def user_app_step bookmarks_app_step
                             app_step_def app_simps open_details_def dest: card_shown_catalog)
next
  case (LoginEv l)
  then show ?thesis
    by (cases l) (auto simp: abs_of_def user_app_step bookmarks_app_step app_step_def app_simps)
qed (auto simp: abs_of_def app_step_def app_simps)

text \<open>
  C25. Refinement: from any reachable state, every sequence of user events is an accepted run
  of the abstract machine of the stores. Each event performs a login, one valid post
  (session present, catalog restaurant, 1 to 5 stars), one toggle of a catalog bookmark,
  or nothing, and the abstraction of the final state is the abstract result.
\<close>

theorem app_run_refines:
  "reachable s \<Longrightarrow> abs_run (abs_of s) (abs_events s es) = Some (abs_of (app_run s es))"
proof (induction es arbitrary: s)
  case Nil
  then show ?case by simp
next
  case (Cons e es)
  have inv: "app_inv s" using Cons.prems by (rule reachable_app_inv)
  have "reachable (app_step s e)" using Cons.prems by (rule reachable.step)
  then have "abs_run (abs_of (app_step s e)) (abs_events (app_step s e) es) =
               Some (abs_of (app_run (app_step s e) es))"
    by (rule Cons.IH)
  with app_step_simulates [OF inv, of e] show ?case by simp
qed

theorem app_run_refines_witness:
  "reachable (initial_app None [] []) \<and>
   abs_run (abs_of (initial_app None [] []))
           (abs_events (initial_app None [] []) [CardEv ''r2'' SaveToggle]) =
   Some (abs_of (app_run (initial_app None [] []) [CardEv ''r2'' SaveToggle]))"
proof -
  have r: "reachable (initial_app None [] [])" by (rule reachable.start [OF app_init_empty])
  from r app_run_refines [OF r, of "[CardEv ''r2'' SaveToggle]"] show ?thesis by (rule conjI)
qed

end
