(* ===== verification/Details.thy ===== *)
theory Details
  imports App
begin

text \<open>
  The details view of \<open>App\<close> (\<open>RestaurantDetails\<close>, \<open>src/src/App.jsx\<close> lines
  253--330) while it stays on screen: the facts the theories of runs share. Events of the
  details view other than Back keep it mounted, so \<open>settle\<close> keeps its draft;
  \<open>post_events\<close> names the three controls a user presses to post a review (a star,
  the text, Post), and \<open>post_events_run\<close> is what they do from any state whose details
  view is open with a session: the review built from the session, the stars and the text
  goes first in the active restaurant's list and the view stays open for the next one.
\<close>

definition post_events :: "nat \<Rightarrow> string \<Rightarrow> int \<Rightarrow> string \<Rightarrow> ui_event list" where
  "post_events k t now w = [DetailsEv (StarClick k), DetailsEv (ReviewInput t), DetailsEv (PostReview now w)]"

lemma app_run_append: "app_run s (xs @ ys) = app_run (app_run s xs) ys"
  by (induction xs arbitrary: s) simp_all

lemma catalog_ids_mock: "catalog_ids MOCK_RESTAURANTS = {''r1'', ''r2'', ''r3''}"
  by (simp add: catalog_ids_def mock_ids)

lemma settle_details_shown:
  "details_shown s \<Longrightarrow> draft_text (settle s) = draft_text s \<and> draft_stars (settle s) = draft_stars s"
  by (simp add: settle_def Let_def)

lemma details_shown_settle [simp]: "details_shown (settle s) = details_shown s"
  by (simp add: details_shown_def settle_frame)

lemma details_shown_open [simp]:
  "i \<in> catalog_ids MOCK_RESTAURANTS \<Longrightarrow> details_shown (s\<lparr>active := Some i, tab := Details\<rparr>)"
  by (auto simp: details_shown_def catalog_ids_mock)

lemma details_shown_draft [simp]:
  "details_shown (s\<lparr>draft_stars := k\<rparr>) = details_shown s"
  "details_shown (s\<lparr>draft_text := t\<rparr>) = details_shown s"
  by (simp_all add: details_shown_def)

lemma details_app_step:
  "details_shown s \<Longrightarrow> app_step s (DetailsEv d) = settle (on_details s d)"
  by (simp add: app_step_def)

lemma details_shown_on_details:
  "details_shown s \<Longrightarrow> d \<noteq> DetailsBack \<Longrightarrow> details_shown (on_details s d)"
  by (cases d) (auto simp: details_shown_def post_review_def split: option.splits)

lemma post_events_run:
  assumes "details_shown s" "active s = Some a" "user s \<noteq> None" "1 \<le> k" "k \<le> 5"
    and "5 \<le> length (js_trim t)"
  shows "details_shown (app_run s (post_events k t now w)) \<and>
         active (app_run s (post_events k t now w)) = Some a \<and>
         user (app_run s (post_events k t now w)) = user s \<and>
         reviews (app_run s (post_events k t now w)) =
           add_review a (new_review (user s) now k t w) (reviews s)"
proof -
  define s4 where "s4 = app_step s (DetailsEv (StarClick k))"
  have 4: "details_shown s4" "user s4 = user s" "reviews s4 = reviews s" "active s4 = Some a"
    "draft_stars s4 = k"
    using assms(1,2,4,5) unfolding s4_def
    by (simp_all add: details_app_step settle_details_shown settle_frame)
  define s5 where "s5 = app_step s4 (DetailsEv (ReviewInput t))"
  have 5: "details_shown s5" "user s5 = user s" "reviews s5 = reviews s" "active s5 = Some a"
    "draft_stars s5 = k" "draft_text s5 = t"
    using 4 assms(3) unfolding s5_def
    by (simp_all add: details_app_step settle_details_shown settle_frame)
  have "details_shown (app_step s5 (DetailsEv (PostReview now w))) \<and>
        active (app_step s5 (DetailsEv (PostReview now w))) = Some a \<and>
        user (app_step s5 (DetailsEv (PostReview now w))) = user s \<and>
        reviews (app_step s5 (DetailsEv (PostReview now w))) =
          add_review a (new_review (user s) now k t w) (reviews s)"
    using 5 assms(3,4,6)
    by (simp add: details_app_step settle_frame can_post_def post_review_def details_shown_def)
  then show ?thesis
    by (simp add: post_events_def s4_def s5_def)
qed

end
