(* ===== verification/ReviewStore.thy ===== *)
theory ReviewStore
  imports Details "HOL-Library.Multiset"
begin

text \<open>
  The review store over whole sessions and the list of reviews the details view renders.

  \<^item> \<open>recent_reviews\<close> is the "Recent reviews" block of \<open>RestaurantDetails\<close>
    (\<open>src/src/App.jsx\<close>, lines 306--319): the note "No reviews yet" when the list is
    empty, then one card per review, in list order, keyed by \<open>rv.id\<close> and showing the
    author, the stars, the text and the date. The date is shown through
    \<open>toLocaleString\<close>; the card keeps the stored ISO string, because the locale
    formatting is the browser's. \<open>shown_reviews\<close> is that block as \<open>App\<close> mounts it
    (lines 136--143, with \<open>reviews[active] || []\<close> as its input), empty when the
    details view is not on screen. \<open>line_keys\<close> are the React keys of the cards.
  \<^item> \<open>wf_review\<close> is the data model of a review (spec section 3): 1 to 5 stars, an
    author name, a text of at least five characters after trimming; \<open>wf_store\<close> says
    that every list of the store belongs to a catalog restaurant and holds well-formed
    reviews. It is the type invariant of the store: every step keeps it.
  \<^item> \<open>review_ids\<close> lists the identifiers of all reviews of the store. A review takes
    its identifier from the post event's clock reading (\<open>Date.now()\<close>);
    \<open>clock_ok t es\<close> says that the clock readings of the posts in \<open>es\<close> are strictly
    increasing and above \<open>t\<close>. Under that hypothesis the identifiers, and so the React
    keys of every rendered list, stay distinct; with two posts in the same millisecond
    they do not.
\<close>

datatype review_line = EmptyNote | ReviewCard int string nat string string

definition recent_reviews :: "review list \<Rightarrow> review_line list" where
  "recent_reviews rs =
     (if length rs = 0 then [EmptyNote] else []) @
     map (\<lambda>rv. ReviewCard (review_id rv) (review_user rv) (stars rv) (review_text rv) (date rv)) rs"

definition shown_reviews :: "app \<Rightarrow> review_line list" where
  "shown_reviews s =
     (case details_target s of
        Inr (Some r) \<Rightarrow> recent_reviews (reviews_of (reviews s) (restaurant.rid r))
      | _ \<Rightarrow> [])"

fun line_key :: "review_line \<Rightarrow> int option" where
  "line_key (ReviewCard k _ _ _ _) = Some k"
| "line_key EmptyNote = None"

definition line_keys :: "review_line list \<Rightarrow> int list" where
  "line_keys ls = List.map_filter line_key ls"

definition wf_review :: "review \<Rightarrow> bool" where
  "wf_review rv \<longleftrightarrow>
     1 \<le> stars rv \<and> stars rv \<le> 5 \<and> review_user rv \<noteq> [] \<and> 5 \<le> length (js_trim (review_text rv))"

definition wf_store :: "review_map \<Rightarrow> bool" where
  "wf_store m \<longleftrightarrow>
     (\<forall>(a, rs) \<in> set m. a \<in> catalog_ids MOCK_RESTAURANTS \<and> (\<forall>rv \<in> set rs. wf_review rv))"

definition review_ids :: "review_map \<Rightarrow> int list" where
  "review_ids m = concat (map (\<lambda>(a, rs). map review_id rs) m)"

fun clock_ok :: "int \<Rightarrow> ui_event list \<Rightarrow> bool" where
  "clock_ok t [] = True"
| "clock_ok t (DetailsEv (PostReview now w) # es) = (t < now \<and> clock_ok now es)"
| "clock_ok t (e # es) = clock_ok t es"

lemma mset_review_ids_add_review:
  "mset (review_ids (add_review a rv m)) = mset (review_id rv # review_ids m)"
  unfolding add_review_def
  by (induction m) (auto simp: review_ids_def reviews_of_def)

lemma review_ids_add_review:
  "distinct (review_ids (add_review a rv m)) \<longleftrightarrow>
     review_id rv \<notin> set (review_ids m) \<and> distinct (review_ids m)"
  "set (review_ids (add_review a rv m)) = insert (review_id rv) (set (review_ids m))"
  using mset_eq_imp_distinct_iff [OF mset_review_ids_add_review [of a rv m]]
        mset_eq_setD [OF mset_review_ids_add_review [of a rv m]]
  by simp_all

lemma set_obj_set: "set (obj_set ps k v) \<subseteq> insert (k, v) (set ps)"
  by (induction ps k v rule: obj_set.induct) auto

lemma wf_store_add_review:
  assumes "wf_store m" "a \<in> catalog_ids MOCK_RESTAURANTS" "wf_review rv"
  shows "wf_store (add_review a rv m)"
proof -
  have "rv' \<in> set (reviews_of m a) \<Longrightarrow> wf_review rv'" for rv'
    using assms(1) by (cases "map_of m a") (auto simp: reviews_of_def wf_store_def dest!: map_of_SomeD)
  with assms show ?thesis
    using set_obj_set [of m a "rv # reviews_of m a"] by (fastforce simp: add_review_def wf_store_def)
qed

lemma clock_ok_other:
  "(\<And>now w. e \<noteq> DetailsEv (PostReview now w)) \<Longrightarrow> clock_ok t (e # es) = clock_ok t es"
  by (cases "(t, e # es)" rule: clock_ok.cases) auto

lemma map_filter_line_key_cards:
  "List.map_filter line_key
     (map (\<lambda>rv. ReviewCard (review_id rv) (review_user rv) (stars rv) (review_text rv) (date rv)) rs) =
   map review_id rs"
  by (induction rs) simp_all

lemma line_keys_recent_reviews [simp]: "line_keys (recent_reviews rs) = map review_id rs"
  by (simp add: line_keys_def recent_reviews_def map_filter_line_key_cards)

lemma distinct_ids_reviews_of:
  "distinct (review_ids m) \<Longrightarrow> distinct (map review_id (reviews_of m a))"
  by (induction m) (auto simp: review_ids_def reviews_of_def)

lemma shown_review_keys:
  "line_keys (shown_reviews s) = [] \<or> (\<exists>a. line_keys (shown_reviews s) = map review_id (reviews_of (reviews s) a))"
  by (auto simp: shown_reviews_def split: sum.splits option.splits; simp add: line_keys_def)

lemma shown_reviews_open:
  assumes "details_shown s" "active s = Some a" "a \<in> catalog_ids MOCK_RESTAURANTS"
  shows "shown_reviews s = recent_reviews (reviews_of (reviews s) a)"
proof -
  obtain r where r: "find_restaurant MOCK_RESTAURANTS a = Some r"
    using assms(3) find_restaurant_Some_iff by blast
  then have "restaurant.rid r = a" by (simp add: find_restaurant_rid)
  with r assms(1,2) show ?thesis by (simp add: shown_reviews_def details_target_def)
qed

lemma distinct_shown_keys: "distinct (review_ids (reviews s)) \<Longrightarrow> distinct (line_keys (shown_reviews s))"
  using shown_review_keys [of s] by (auto dest: distinct_ids_reviews_of)

lemma review_ids_app_step:
  assumes "clock_ok t (e # es)" "\<forall>i\<in>set (review_ids (reviews s)). i \<le> t"
    and "distinct (review_ids (reviews s))"
  obtains t' where "clock_ok t' es" "\<forall>i\<in>set (review_ids (reviews (app_step s e))). i \<le> t'"
    "distinct (review_ids (reviews (app_step s e)))"
proof (cases "\<exists>now w. e = DetailsEv (PostReview now w)")
  case True
  then obtain now w where e: "e = DetailsEv (PostReview now w)" by blast
  with assms(1) have "t < now" "clock_ok now es" by simp_all
  moreover from assms(2) \<open>t < now\<close> have "\<forall>i\<in>set (review_ids (reviews s)). i < now" by force
  ultimately show ?thesis
    using reviews_app_step_cases [of s e] e assms(3)
    by (intro that [of now]) (auto simp: review_ids_add_review new_review_def order.strict_implies_order)
next
  case False
  then have "clock_ok t es" using assms(1) clock_ok_other [of e t es] by blast
  with False assms(2,3) show ?thesis
    using reviews_app_step_cases [of s e] by (intro that [of t]) auto
qed

lemma distinct_review_ids_run:
  "distinct (review_ids (reviews s)) \<Longrightarrow> \<forall>i\<in>set (review_ids (reviews s)). i \<le> t \<Longrightarrow> clock_ok t es \<Longrightarrow>
     distinct (review_ids (reviews (app_run s es)))"
proof (induction es arbitrary: s t)
  case Nil
  then show ?case by simp
next
  case (Cons e es)
  from Cons.prems(3,2,1) obtain t' where "clock_ok t' es" "\<forall>i\<in>set (review_ids (reviews (app_step s e))). i \<le> t'"
    "distinct (review_ids (reviews (app_step s e)))"
    by (rule review_ids_app_step [of t e es s])
  with Cons.IH show ?case by simp
qed

text \<open>
  C26. Type invariant of the review store: from any reachable state whose store is
  well-formed, every sequence of events leaves it well-formed. Every list belongs to a
  catalog restaurant and every review has 1 to 5 stars, a non-empty author name (the
  session's name or \<open>Guest\<close>) and a text of at least five characters after trimming.
\<close>

theorem wf_store_preserved:
  "reachable s \<Longrightarrow> wf_store (reviews s) \<Longrightarrow> wf_store (reviews (app_run s es))"
proof (induction es arbitrary: s)
  case Nil
  then show ?case by simp
next
  case (Cons e es)
  have inv: "app_inv s" using Cons.prems(1) by (rule reachable_app_inv)
  have "wf_store (reviews (app_step s e))"
    using reviews_app_step_cases [of s e]
  proof
    assume "reviews (app_step s e) = reviews s"
    with Cons.prems(2) show ?thesis by simp
  next
    assume "\<exists>now w a. e = DetailsEv (PostReview now w) \<and> details_shown s \<and> active s = Some a \<and>
      can_post (user s) (draft_stars s) (draft_text s) \<and>
      reviews (app_step s e) = add_review a (new_review (user s) now (draft_stars s) (draft_text s) w) (reviews s)"
    then obtain now w a where a: "active s = Some a" "can_post (user s) (draft_stars s) (draft_text s)"
      and r: "reviews (app_step s e) = add_review a (new_review (user s) now (draft_stars s) (draft_text s) w) (reviews s)"
      by blast
    from inv a have "a \<in> catalog_ids MOCK_RESTAURANTS" "draft_stars s \<le> 5" by (auto simp: app_inv_def)
    moreover from this(2) a(2) have "wf_review (new_review (user s) now (draft_stars s) (draft_text s) w)"
      by (auto simp: can_post_def wf_review_def new_review_def split: option.splits)
    ultimately show ?thesis using Cons.prems(2) r by (simp add: wf_store_add_review)
  qed
  with Cons.IH [OF reachable.step [OF Cons.prems(1)]] show ?case by simp
qed

theorem wf_store_preserved_witness:
  "reachable (initial_app (Some (login_user ''Asha'' ''a@x.com'')) [] []) \<and>
   wf_store (reviews (initial_app (Some (login_user ''Asha'' ''a@x.com'')) [] [])) \<and>
   wf_store (reviews (app_run (initial_app (Some (login_user ''Asha'' ''a@x.com'')) [] [])
     [CardEv ''r1'' ViewDetails, DetailsEv (StarClick 5), DetailsEv (ReviewInput ''Great food''),
      DetailsEv (PostReview 7 ''2025-01-01''), DetailsEv (StarClick 4),
      DetailsEv (ReviewInput ''Nice place''), DetailsEv (PostReview 8 ''2025-01-01'')]))"
proof -
  have a: "app_init (Map.empty(''nom_user'' \<mapsto> Parsed (encode_session (Some (login_user ''Asha'' ''a@x.com''))))) =
      Inr (initial_app (Some (login_user ''Asha'' ''a@x.com'')) [] [])"
    by (simp add: app_init_def loadLocal_def encode_session_def decode_session_def field_def
                  obj_of_pairs_def login_user_def decode_reviews_def decode_bookmarks_def)
  have r: "reachable (initial_app (Some (login_user ''Asha'' ''a@x.com'')) [] [])"
    by (rule reachable.start [OF a])
  have w: "wf_store (reviews (initial_app (Some (login_user ''Asha'' ''a@x.com'')) [] []))"
    by (simp add: wf_store_def initial_app_def)
  show ?thesis using r w wf_store_preserved [OF r w] by blast
qed

text \<open>
  C27. Review identifiers are unique when the clock is: if the store's identifiers are
  distinct and at most \<open>t\<close>, and the clock readings of the posts that follow are strictly
  increasing above \<open>t\<close>, then after any sequence of events the identifiers are still
  distinct, and so are the React keys of the review cards the details view renders.
\<close>

theorem review_ids_distinct_run:
  "distinct (review_ids (reviews s)) \<Longrightarrow> \<forall>i\<in>set (review_ids (reviews s)). i \<le> t \<Longrightarrow> clock_ok t es \<Longrightarrow>
     distinct (review_ids (reviews (app_run s es))) \<and> distinct (line_keys (shown_reviews (app_run s es)))"
  using distinct_review_ids_run distinct_shown_keys by blast

theorem review_ids_distinct_run_witness:
  "distinct (review_ids (reviews (initial_app (Some (login_user ''Asha'' ''a@x.com'')) [] []))) \<and>
   clock_ok 0 [CardEv ''r1'' ViewDetails, DetailsEv (StarClick 5), DetailsEv (ReviewInput ''Great food''),
      DetailsEv (PostReview 7 ''2025-01-01''), DetailsEv (StarClick 4),
      DetailsEv (ReviewInput ''Nice place''), DetailsEv (PostReview 8 ''2025-01-01'')] \<and>
   distinct (review_ids (reviews (app_run (initial_app (Some (login_user ''Asha'' ''a@x.com'')) [] [])
     [CardEv ''r1'' ViewDetails, DetailsEv (StarClick 5), DetailsEv (ReviewInput ''Great food''),
      DetailsEv (PostReview 7 ''2025-01-01''), DetailsEv (StarClick 4),
      DetailsEv (ReviewInput ''Nice place''), DetailsEv (PostReview 8 ''2025-01-01'')]))) \<and>
   distinct (line_keys (shown_reviews (app_run (initial_app (Some (login_user ''Asha'' ''a@x.com'')) [] [])
     [CardEv ''r1'' ViewDetails, DetailsEv (StarClick 5), DetailsEv (ReviewInput ''Great food''),
      DetailsEv (PostReview 7 ''2025-01-01''), DetailsEv (StarClick 4),
      DetailsEv (ReviewInput ''Nice place''), DetailsEv (PostReview 8 ''2025-01-01'')])))"
proof -
  have d: "distinct (review_ids (reviews (initial_app (Some (login_user ''Asha'' ''a@x.com'')) [] [])))"
    "\<forall>i\<in>set (review_ids (reviews (initial_app (Some (login_user ''Asha'' ''a@x.com'')) [] []))). i \<le> 0"
    by (simp_all add: review_ids_def initial_app_def)
  have c: "clock_ok 0 [CardEv ''r1'' ViewDetails, DetailsEv (StarClick 5), DetailsEv (ReviewInput ''Great food''),
      DetailsEv (PostReview 7 ''2025-01-01''), DetailsEv (StarClick 4),
      DetailsEv (ReviewInput ''Nice place''), DetailsEv (PostReview 8 ''2025-01-01'')]" by simp
  show ?thesis using d c review_ids_distinct_run [OF d c] by blast
qed

text \<open>
  C28. Identifiers are not unique when two posts fall in the same millisecond: from any state
  whose details view shows a catalog restaurant to a logged-in user, two valid posts with
  the same clock reading put two reviews with that same \<open>id\<close> in front of the
  restaurant's list, and the "Recent reviews" block renders two cards with the same React
  key.
\<close>

theorem same_millisecond_duplicate_keys:
  assumes "tab s = Details" "active s = Some a" "a \<in> catalog_ids MOCK_RESTAURANTS"
    and "user s \<noteq> None" "1 \<le> k" "k \<le> 5" "5 \<le> length (js_trim t)"
    and "1 \<le> k'" "k' \<le> 5" "5 \<le> length (js_trim t')"
  shows "line_keys (shown_reviews (app_run s (post_events k t now w @ post_events k' t' now w'))) =
           now # now # map review_id (reviews_of (reviews s) a)"
proof -
  have ds: "details_shown s"
    using assms(1-3) by (auto simp: details_shown_def catalog_ids_mock)
  define s1 where "s1 = app_run s (post_events k t now w)"
  have 1: "details_shown s1" "active s1 = Some a" "user s1 = user s"
    "reviews s1 = add_review a (new_review (user s) now k t w) (reviews s)"
    using post_events_run [OF ds assms(2,4-7), of now w] unfolding s1_def by simp_all
  define s2 where "s2 = app_run s1 (post_events k' t' now w')"
  have 2: "details_shown s2" "active s2 = Some a"
    "reviews s2 = add_review a (new_review (user s) now k' t' w') (reviews s1)"
    using post_events_run [OF 1(1,2) _ assms(8-10), of now w'] 1(3) assms(4)
    unfolding s2_def by simp_all
  have "line_keys (shown_reviews s2) = map review_id (reviews_of (reviews s2) a)"
    using shown_reviews_open [OF 2(1,2) assms(3)] by simp
  also have "\<dots> = now # now # map review_id (reviews_of (reviews s) a)"
    using 2(3) 1(4) by (simp add: reviews_of_add_review new_review_def)
  finally show ?thesis by (simp add: s1_def s2_def app_run_append)
qed

theorem same_millisecond_duplicate_keys_witness:
  "tab (initial_app (Some (login_user ''Asha'' ''a@x.com'')) [] []\<lparr>tab := Details, active := Some ''r1''\<rparr>) = Details \<and>
   5 \<le> length (js_trim ''Great food'') \<and> 5 \<le> length (js_trim ''Nice place'') \<and>
   line_keys (shown_reviews (app_run (initial_app (Some (login_user ''Asha'' ''a@x.com'')) [] []\<lparr>tab := Details, active := Some ''r1''\<rparr>)
     (post_events 5 ''Great food'' 7 ''2025-01-01'' @ post_events 4 ''Nice place'' 7 ''2025-01-01''))) = [7, 7]"
proof -
  let ?s = "initial_app (Some (login_user ''Asha'' ''a@x.com'')) [] []\<lparr>tab := Details, active := Some ''r1''\<rparr>"
  have h: "tab ?s = Details" "active ?s = Some ''r1''" "''r1'' \<in> catalog_ids MOCK_RESTAURANTS"
    "user ?s \<noteq> None" "5 \<le> length (js_trim ''Great food'')" "5 \<le> length (js_trim ''Nice place'')"
    by (simp_all add: initial_app_def catalog_ids_mock) code_simp+
  have r: "reviews_of (reviews ?s) ''r1'' = []" by (simp add: initial_app_def reviews_of_def)
  show ?thesis
    using h same_millisecond_duplicate_keys [OF h(1-4) _ _ h(5) _ _ h(6), of 5 4 7 "''2025-01-01''" "''2025-01-01''"] r
    by simp
qed

end
