(* ===== verification/Router.thy ===== *)
theory Router
  imports Details
begin

text \<open>
  The view router of \<open>App\<close> (spec section 4.5) and what a user can always do.

  The view state is the pair of \<open>tab\<close> and \<open>active\<close> of the record \<open>app\<close>; the
  router has no code of its own: \<open>setTab\<close> and \<open>openDetails\<close> are called by the
  handlers modelled in \<open>App\<close>. \<open>nav_event\<close> names the explicit navigation
  controls: the search field's focus and the login icon of \<open>Header\<close>, the hero's
  explore button, a card's details button, the details view's back button, the two buttons
  of \<open>Login\<close> and the four buttons of \<open>TabBar\<close>. The first lemma says that no other
  event moves the view.

  \<open>login_path\<close> and \<open>review_path\<close> are the sequences of controls a user presses to log
  in (the tab bar's login button, both fields, Continue) and to review a restaurant (the
  tab bar's home button, clearing the search field, the restaurant's card, a star, the
  text, Post). The liveness lemmas say that from every state these sequences do their
  work: the application never reaches a state in which a visitor can no longer log in,
  open a restaurant of the catalog or post a review of it.
\<close>

fun nav_event :: "ui_event \<Rightarrow> bool" where
  "nav_event (HeaderEv QueryFocus) = True"
| "nav_event (HeaderEv LoginIcon) = True"
| "nav_event (HeroEv ExploreNow) = True"
| "nav_event (CardEv i ViewDetails) = True"
| "nav_event (DetailsEv DetailsBack) = True"
| "nav_event (LoginEv LoginContinue) = True"
| "nav_event (LoginEv LoginCancel) = True"
| "nav_event (TabBarEv t) = True"
| "nav_event _ = False"

definition login_path :: "string \<Rightarrow> string \<Rightarrow> ui_event list" where
  "login_path n em =
     [TabBarEv TabLogin, LoginEv (LoginNameInput n), LoginEv (LoginEmailInput em), LoginEv LoginContinue]"

definition review_path :: "rid \<Rightarrow> nat \<Rightarrow> string \<Rightarrow> int \<Rightarrow> string \<Rightarrow> ui_event list" where
  "review_path i k t now w =
     [TabBarEv TabHome, HeaderEv (QueryInput []), CardEv i ViewDetails,
      DetailsEv (StarClick k), DetailsEv (ReviewInput t), DetailsEv (PostReview now w)]"

lemma restaurants_empty_query_mock: "restaurants MOCK_RESTAURANTS [] = MOCK_RESTAURANTS"
  by (simp add: restaurants_def norm_query_def js_trim_def)

lemma login_path_run:
  "user (app_run s (login_path n em)) = Some (login_user n em) \<and>
   reviews (app_run s (login_path n em)) = reviews s"
proof -
  let ?s1 = "app_step s (TabBarEv TabLogin)"
  have 1: "tab ?s1 = Login" "reviews ?s1 = reviews s"
    by (simp_all add: app_step_def app_simps)
  let ?s3 = "app_step (app_step ?s1 (LoginEv (LoginNameInput n))) (LoginEv (LoginEmailInput em))"
  have 3: "tab ?s3 = Login" "reviews ?s3 = reviews s" "login_name ?s3 = n" "login_email ?s3 = em"
    using 1 by (simp_all add: app_step_def settle_def Let_def)
  then show ?thesis
    by (simp add: login_path_def app_step_def app_simps)
qed

lemma review_path_run:
  assumes "user s \<noteq> None" "i \<in> catalog_ids MOCK_RESTAURANTS" "1 \<le> k" "k \<le> 5"
    and "5 \<le> length (js_trim t)"
  shows "reviews (app_run s (review_path i k t now w)) =
           add_review i (new_review (user s) now k t w) (reviews s)"
proof -
  let ?s2 = "app_step (app_step s (TabBarEv TabHome)) (HeaderEv (QueryInput []))"
  have 2: "tab ?s2 = Home" "query ?s2 = []" "user ?s2 = user s" "reviews ?s2 = reviews s"
    by (simp_all add: app_step_def app_simps)
  then have "card_shown ?s2 i"
    using assms(2) by (simp add: card_shown_def restaurants_empty_query_mock catalog_ids_def)
  then have "app_event ?s2 (CardEv i ViewDetails) = ?s2\<lparr>active := Some i, tab := Details\<rparr>"
    by (simp add: open_details_def)
  then have 3: "details_shown (app_step ?s2 (CardEv i ViewDetails))"
    "user (app_step ?s2 (CardEv i ViewDetails)) = user s"
    "reviews (app_step ?s2 (CardEv i ViewDetails)) = reviews s"
    "active (app_step ?s2 (CardEv i ViewDetails)) = Some i"
    using assms(2) 2 by (simp_all add: app_step_def app_simps)
  have "review_path i k t now w =
          [TabBarEv TabHome, HeaderEv (QueryInput []), CardEv i ViewDetails] @ post_events k t now w"
    by (simp add: review_path_def post_events_def)
  with post_events_run [OF 3(1,4), of k t now w] 3(2,3) assms(1,3,4,5) show ?thesis
    by (simp add: app_run_append)
qed

text \<open>
  C29. The view moves only on explicit navigation: an event that changes the active tab or
  the active restaurant is one of the navigation controls (the search field's focus, the
  login icon, the explore button, a card's details button, the back button, the login
  form's buttons, the tab bar). Typing, stars, posting, saving and the filter panel never
  move the view, and nothing moves it without an event.
\<close>

theorem view_changes_only_by_navigation:
  "tab (app_step s e) \<noteq> tab s \<or> active (app_step s e) \<noteq> active s \<Longrightarrow> nav_event e"
  by (cases e rule: nav_event.cases)
     (auto simp: app_step_def app_simps open_details_def post_review_def split: if_splits option.splits)

theorem view_changes_only_by_navigation_witness:
  "tab (app_step (initial_app None [] []) (TabBarEv TabLogin)) \<noteq> tab (initial_app None [] []) \<and>
   nav_event (TabBarEv TabLogin)"
proof -
  have h: "tab (app_step (initial_app None [] []) (TabBarEv TabLogin)) \<noteq> tab (initial_app None [] [])"
    by (simp add: app_step_def app_simps initial_app_def)
  show ?thesis using h view_changes_only_by_navigation [of "initial_app None [] []" "TabBarEv TabLogin"]
    by blast
qed

text \<open>
  C30. Liveness: from every state, any visitor can log in and review any restaurant of the
  catalog. Pressing the login controls with a name and an email and then the controls of
  \<open>review_path\<close> with 1 to 5 stars and a text of at least five characters after
  trimming puts the new review, by that user, first in the restaurant's list and leaves
  every other list as it was.
\<close>

theorem any_visitor_can_review:
  assumes "i \<in> catalog_ids MOCK_RESTAURANTS" "1 \<le> k" "k \<le> 5" "5 \<le> length (js_trim t)"
  shows "reviews_of (reviews (app_run s (login_path n em @ review_path i k t now w))) =
           (reviews_of (reviews s))(i := new_review (Some (login_user n em)) now k t w # reviews_of (reviews s) i)"
proof -
  let ?s = "app_run s (login_path n em)"
  have "user ?s = Some (login_user n em)" "reviews ?s = reviews s"
    using login_path_run by simp_all
  with review_path_run [of ?s i k t now w] assms show ?thesis
    by (simp add: app_run_append reviews_of_add_review)
qed

theorem any_visitor_can_review_witness:
  "''r1'' \<in> catalog_ids MOCK_RESTAURANTS \<and> 1 \<le> (4::nat) \<and> (4::nat) \<le> 5 \<and>
   5 \<le> length (js_trim ''Loved it here'') \<and>
   reviews_of (reviews (app_run (initial_app None [] []) (login_path ''Asha'' ''a@x.com'' @ review_path ''r1'' 4 ''Loved it here'' 1 ''2025-01-01''))) =
     (reviews_of (reviews (initial_app None [] [])))(''r1'' :=
        new_review (Some (login_user ''Asha'' ''a@x.com'')) 1 4 ''Loved it here'' ''2025-01-01'' #
        reviews_of (reviews (initial_app None [] [])) ''r1'')"
proof -
  have h: "''r1'' \<in> catalog_ids MOCK_RESTAURANTS" "5 \<le> length (js_trim ''Loved it here'')"
    by (simp add: catalog_ids_mock) code_simp
  show ?thesis
    using h any_visitor_can_review [OF h(1) _ _ h(2), of 4 "initial_app None [] []"] by simp
qed

end
