(* ===== verification/Views.thy ===== *)
theory Views
  imports App
begin

text \<open>
  The restaurant cards that \<open>App\<close> renders on the home and search tabs.

  \<open>RestaurantCard\<close> (\<open>src/src/App.jsx\<close>, lines 223--251) is what one card shows: the
  name, the average rating, the area and price tier, one chip per cuisine tag (keyed by the
  tag), and the save button's label, \<open>Saved\<close> when the restaurant is bookmarked and
  \<open>Save\<close> otherwise. The image, the icons and the styling are not modelled. A
  \<open>card_view\<close> also carries the React key \<open>r.id\<close> that \<open>App\<close> gives the card.
  \<open>cards_view\<close> is the card grid of the home tab (lines 103--116) and of the search tab
  (lines 118--134): one card per restaurant of the filtered list, in its order, and no
  cards on the other tabs.

  The lemmas say that the guard \<open>card_shown\<close> of \<open>App\<close>'s card events is exactly the
  set of rendered cards, that the cards' keys and each card's chip keys are distinct, and
  that the save button of a rendered card switches its own label between \<open>Save\<close> and
  \<open>Saved\<close> and leaves every other card as it was, and that the two buttons without a
  handler (the hero's "Add a review", a card's "Add photo") change nothing, and that no
  control of the filter panel, its Apply button included, changes the cards shown.
\<close>

record card_view =
  cv_key :: rid
  cv_name :: string
  cv_rating :: rat
  cv_area :: string
  cv_price :: string
  cv_chips :: "string list"
  cv_save_label :: string

definition RestaurantCard :: "restaurant \<Rightarrow> bool \<Rightarrow> card_view" where
  "RestaurantCard r bookmarked =
     \<lparr>cv_key = restaurant.rid r, cv_name = name r, cv_rating = rating r, cv_area = area r,
      cv_price = price r, cv_chips = cuisine r,
      cv_save_label = (if bookmarked then ''Saved'' else ''Save'')\<rparr>"

definition cards_view :: "app \<Rightarrow> card_view list" where
  "cards_view s =
     (if tab s = Home \<or> tab s = Search
      then map (\<lambda>r. RestaurantCard r (is_bookmarked (bookmarks s) (restaurant.rid r)))
               (restaurants MOCK_RESTAURANTS (query s))
      else [])"

lemma map_cv_key_cards_view:
  "map cv_key (cards_view s) =
     (if tab s = Home \<or> tab s = Search then map restaurant.rid (restaurants MOCK_RESTAURANTS (query s)) else [])"
  by (simp add: cards_view_def RestaurantCard_def comp_def)

lemma card_shown_rendered: "card_shown s i \<longleftrightarrow> i \<in> set (map cv_key (cards_view s))"
  by (simp add: map_cv_key_cards_view card_shown_def)

lemma distinct_rids_restaurants: "distinct (map restaurant.rid (restaurants MOCK_RESTAURANTS q))"
  by (simp add: restaurants_def Let_def distinct_map_filter mock_ids)

lemma cards_view_keys_distinct: "distinct (map cv_key (cards_view s))"
  by (simp add: map_cv_key_cards_view distinct_rids_restaurants)

lemma cards_view_chips_distinct: "c \<in> set (cards_view s) \<Longrightarrow> distinct (cv_chips c)"
proof -
  have "distinct (cuisine r)" if "r \<in> set MOCK_RESTAURANTS" for r
    using that by (auto simp: MOCK_RESTAURANTS_def)
  moreover assume "c \<in> set (cards_view s)"
  ultimately show ?thesis
    by (auto simp: cards_view_def RestaurantCard_def split: if_splits dest: restaurants_subset)
qed

lemma filters_do_not_filter: "cards_view (app_step s (ModalEv m)) = cards_view s"
  by (simp add: cards_view_def app_step_def app_simps)

lemma inert_buttons:
  "app_step s (HeroEv AddReviewHero) = settle s \<and> app_step s (CardEv i AddPhoto) = settle s"
  by (simp add: app_step_def)

text \<open>
  C31. The save button of a rendered card switches that card's label, from Save to Saved
  when the restaurant was not bookmarked and back otherwise, and leaves every other card
  of the grid, and the grid's order, as it was.
\<close>

theorem cards_view_save_toggle:
  assumes "card_shown s i"
  shows "cards_view (app_step s (CardEv i SaveToggle)) =
           map (\<lambda>c. if cv_key c = i
                     then c\<lparr>cv_save_label := if i \<in> set (bookmarks s) then ''Save'' else ''Saved''\<rparr>
                     else c) (cards_view s)"
  using assms
  by (auto simp: cards_view_def app_step_def app_simps card_shown_def RestaurantCard_def
                 is_bookmarked_def toggle_bookmark_def)

theorem cards_view_save_toggle_witness:
  "card_shown (initial_app None [] []) ''r1'' \<and>
   cards_view (app_step (initial_app None [] []) (CardEv ''r1'' SaveToggle)) =
     map (\<lambda>c. if cv_key c = ''r1''
               then c\<lparr>cv_save_label := if ''r1'' \<in> set (bookmarks (initial_app None [] [])) then ''Save'' else ''Saved''\<rparr>
               else c) (cards_view (initial_app None [] []))"
proof -
  have h: "card_shown (initial_app None [] []) ''r1''" by (simp add: initial_cards)
  show ?thesis using h cards_view_save_toggle [OF h] by simp
qed

end
