(* ===== verification/StarRating.thy ===== *)
theory StarRating
  imports Prelude
begin

text \<open>
  Star displays. The v1.1 homepage \<open>src/src/NomNomApp.jsx\<close> shows the static list
  \<open>featuredReviewers\<close> (lines 11--32), each with a \<open>StarRating\<close> (lines 34--45):
  five stars, the star of index \<open>i\<close> (from 0) filled when \<open>i < rating\<close>.
  \<open>StarRating\<close> is the list of the five fill flags. The review form of
  \<open>src/src/App.jsx\<close> draws five star buttons (lines 281--285), button \<open>i\<close> (from 1)
  highlighted when \<open>i <= stars\<close>; \<open>star_buttons\<close> is that list of flags.
  Strings are byte lists, so the em dash of the second review is its three UTF-8 bytes.
  \<open>NomNomApp\<close> is the page's list of cards (lines 55--67): one \<open>Card\<close> per
  reviewer, keyed by its index, with the name, the review and the \<open>StarRating\<close>;
  the page's header and footer are static text and are not modelled.
  The lemmas say that both star rows draw a prefix of filled stars whose length is the
  rating clamped to 0..5, and that the page shows the four reviewers in order with 4, 5, 4
  and 3 stars.
\<close>

record featured_reviewer =
  reviewer_name :: string
  reviewer_review :: string
  reviewer_rating :: int

definition featuredReviewers :: "featured_reviewer list" where
  "featuredReviewers = [
    \<lparr>reviewer_name = ''Koumi Mahzabin'',
     reviewer_review = ''Amazing food and ambiance. Hidden gem!'', reviewer_rating = 4\<rparr>,
    \<lparr>reviewer_name = ''Al Mamun'',
     reviewer_review = ''Tried their beef nihari '' @ [CHR 0xE2, CHR 0x80, CHR 0x94] @
       '' no need to go to Karachi!'', reviewer_rating = 5\<rparr>,
    \<lparr>reviewer_name = ''Sarah Habib'',
     reviewer_review = ''Family-friendly place with a clean interior.'', reviewer_rating = 4\<rparr>,
    \<lparr>reviewer_name = ''Palash Hossain'',
     reviewer_review = ''Service can be slow, but food is top notch.'', reviewer_rating = 3\<rparr>]"

definition StarRating :: "int \<Rightarrow> bool list" where
  "StarRating rating = map (\<lambda>i. int i < rating) [0..<5]"

definition star_buttons :: "nat \<Rightarrow> bool list" where
  "star_buttons stars = map (\<lambda>i. i \<le> stars) [1..<6]"

record featured_card =
  card_key :: nat
  card_name :: string
  card_review :: string
  card_stars :: "bool list"

definition NomNomApp :: "featured_card list" where
  "NomNomApp =
     map (\<lambda>(idx, r). \<lparr>card_key = idx, card_name = reviewer_name r, card_review = reviewer_review r,
                      card_stars = StarRating (reviewer_rating r)\<rparr>)
         (enumerate 0 featuredReviewers)"

text \<open>
  C21. \<open>StarRating\<close> fills a prefix of the five stars, as many as the rating clamped to the
  range 0..5, and leaves the rest empty.
\<close>

theorem StarRating_prefix:
  "StarRating r = replicate (nat (min 5 (max 0 r))) True @ replicate (5 - nat (min 5 (max 0 r))) False"
proof -
  have "r \<le> 0 \<or> r = 1 \<or> r = 2 \<or> r = 3 \<or> r = 4 \<or> 5 \<le> r" by arith
  then show ?thesis by (auto simp: StarRating_def upt_rec numeral_eq_Suc)
qed

text \<open>
  The v1.1 homepage renders one card per featured reviewer, in the order of the list,
  keyed by its index 0 to 3, each with the reviewer's name and review and a star row of
  4, 5, 4 and 3 filled stars: every rating of the list is in range and shown as given.
\<close>

lemma nomnom_page_cards:
  "map card_key NomNomApp = [0..<length featuredReviewers] \<and>
   map card_name NomNomApp = map reviewer_name featuredReviewers \<and>
   map card_review NomNomApp = map reviewer_review featuredReviewers \<and>
   map (\<lambda>c. count_list (card_stars c) True) NomNomApp = [4, 5, 4, 3]"
  by (simp add: NomNomApp_def featuredReviewers_def StarRating_def upt_rec)

text \<open>
  C22. The star buttons of the review form highlight the first \<open>stars\<close> buttons (at most five)
  and no others.
\<close>

theorem star_buttons_prefix:
  "star_buttons s = replicate (min 5 s) True @ replicate (5 - min 5 s) False"
proof -
  have "s = 0 \<or> s = 1 \<or> s = 2 \<or> s = 3 \<or> s = 4 \<or> 5 \<le> s" by arith
  then show ?thesis by (auto simp: star_buttons_def upt_rec numeral_eq_Suc)
qed

end
