(* ===== verification/Spec2Isabelle.thy ===== *)
theory Spec2Isabelle
  imports Refinement ReviewStore Router Views StarRating
begin

text \<open>
  \<^bold>\<open>NomNom: a verification development.\<close>

  \<^emph>\<open>The program.\<close> NomNom is a client-side restaurant discovery prototype in React.
  \<open>src/src/App.jsx\<close> holds the whole application: a mock catalog
  (\<open>MOCK_RESTAURANTS\<close>), two storage helpers (\<open>loadLocal\<close>, \<open>saveLocal\<close>), and the
  component \<open>App\<close>, whose seven state cells (tab, query, filter panel, active restaurant,
  user, reviews, bookmarks) drive the children \<open>Header\<close>, \<open>Hero\<close>,
  \<open>RestaurantCard\<close>, \<open>RestaurantDetails\<close> (which keeps a review draft), \<open>Login\<close>
  (which keeps two form fields), \<open>Modal\<close> and \<open>TabBar\<close>. The children call back into
  \<open>App\<close>'s setters; three effects write the user, the reviews and the bookmarks to
  \<open>localStorage\<close> after every change, and three lazy initialisers read them back at
  start. \<open>src/src/NomNomApp.jsx\<close> is an unused v1.1 homepage with a static list of featured
  reviewers drawn by \<open>StarRating\<close>.

  \<^emph>\<open>The theories.\<close>
  \<^item> \<open>Prelude\<close>: the JavaScript string primitives the code calls (\<open>trim\<close>,
    \<open>toLowerCase\<close>, \<open>includes\<close>, \<open>join\<close>) on ASCII, \<open>js_includes\<close> proved equal
    to the library's \<open>sublist\<close>; the collections \<open>js_simps\<close>, \<open>store_simps\<close>,
    \<open>app_simps\<close>.
  \<^item> \<open>Catalog\<close>: the records \<open>menu_item\<close>, \<open>restaurant\<close>, the constant
    \<open>MOCK_RESTAURANTS\<close> with every field, and \<open>find_restaurant\<close> (\<open>Array.find\<close>).
  \<^item> \<open>Search\<close>: \<open>restaurants\<close>, the memoised filter of \<open>App\<close>, with
    \<open>norm_query\<close> and \<open>matches\<close>. C11: the filter equals the specification's filter
    written over the library's \<open>sublist\<close> (membership and order at once); C12--C14: the
    empty query, finding a restaurant by its name in any case, refinement of a query.
  \<^item> \<open>Json\<close>: JSON values, JavaScript objects as property lists (\<open>obj_set\<close>),
    \<open>localStorage\<close> as a map from keys to parsed values or unparsable text, and
    \<open>loadLocal\<close>/\<open>saveLocal\<close>. C18, C19: load after save, and the fallbacks.
  \<^item> \<open>Stores\<close>: the bookmark store (\<open>toggle_bookmark\<close>), the review store
    (\<open>add_review\<close>, \<open>new_review\<close>, \<open>can_post\<close>), the session (\<open>login_user\<close>),
    their JSON encoders and the decoders that say which stored values have the expected
    shape, with the round trips. C15--C17: toggling twice restores the set, restores the
    list for a fresh id, and for a bookmarked id moves it to the end of the array unless it
    was last.
  \<^item> \<open>App\<close>: the application as a state machine. The record \<open>app\<close> is the state
    of \<open>App\<close> plus the draft of \<open>RestaurantDetails\<close> and the fields of \<open>Login\<close>. Each
    child that changes state has an event datatype and a handler (\<open>on_header\<close>,
    \<open>on_hero\<close>, \<open>on_card\<close>, \<open>on_modal\<close>, \<open>on_details\<close>, \<open>on_login\<close>,
    \<open>on_tabbar\<close>); \<open>app_event\<close> is \<open>App\<close>'s render, which forwards an event only
    when its control is rendered and enabled; \<open>settle\<close> drops the local state of a child
    that unmounts; \<open>app_step\<close> is one user action, \<open>app_run\<close> a sequence of them.
    \<open>persist\<close> is the three effects, \<open>app_init\<close> the three initialisers, \<open>boot\<close>
    the first render and \<open>sys_run\<close> the application together with its storage.
    \<open>reachable\<close> is the inductive set of states of any session; \<open>app_inv\<close> its
    invariant (the active id is in the catalog, the review object has distinct keys, at most
    five draft stars), proved by rule induction. C1--C10: no review without a session, for
    one event and for any event sequence; every change of the review store is one valid
    post; a post goes first; the details view never misses its restaurant; a restart
    restores the stores; the session is never cleared; the card buttons; no run puts a
    duplicate into the bookmark list. C20: hydration falls back on absent or unparsable
    data. C23, C24: the review store is append-only over any run, and over any run the
    interface bookmarks only catalog restaurants.
  \<^item> \<open>Details\<close>: the details view while it stays on screen, and \<open>post_events\<close>, the
    three controls that post a review, with what they do from any open details view.
  \<^item> \<open>Refinement\<close>: the abstract specification of the persisted data, a machine over
    the session, a total map from restaurant ids to review lists and a set of bookmarks,
    whose only operations are a login, one valid post and the toggle of one catalog
    bookmark; \<open>abs_of\<close> abstracts a state of \<open>App\<close>, \<open>abs_event\<close> names the
    operation an event performs. C25: every run from a reachable state is an accepted run
    of the abstract machine (forward simulation under \<open>app_inv\<close>).
  \<^item> \<open>ReviewStore\<close>: the review store over whole runs and the "Recent reviews" list of
    the details view (\<open>recent_reviews\<close>, \<open>shown_reviews\<close>, with the React keys
    \<open>line_keys\<close>). C26: the type invariant of the store (every review has 1 to 5 stars,
    an author and a text of five trimmed characters, under a catalog restaurant) holds
    over every run; C27: under a strictly increasing clock the review identifiers, and so
    the rendered keys, stay distinct (a multiset argument on \<open>review_ids\<close>); C28: from
    any open details view, two posts in the same millisecond give two cards with the
    same key.
  \<^item> \<open>Router\<close>: the view state (tab and active restaurant) and what a user can always do.
    C29: only the navigation controls (\<open>nav_event\<close>) move the view; C30: liveness,
    from every state the controls of \<open>login_path\<close> and \<open>review_path\<close> log a visitor in
    and post a review of any catalog restaurant.
  \<^item> \<open>Views\<close>: the card grid of the home and search tabs (\<open>RestaurantCard\<close>,
    \<open>cards_view\<close>). The guard \<open>card_shown\<close> of the card events is exactly the set of
    rendered cards, whose keys are distinct; the buttons without a handler change nothing,
    and the filter panel's Apply button filters nothing. C31: a card's save button
    switches its own label and no other card.
  \<^item> \<open>StarRating\<close>: \<open>featuredReviewers\<close>, \<open>StarRating\<close>, the cards of the v1.1 page
    (\<open>NomNomApp\<close>) and the star buttons of the review form. C21, C22: both star rows
    fill a prefix as long as the rating clamped to 0..5.
  \<^item> This theory: the scenarios of the specification's section 8 as runs of the whole
    system from empty storage, kept as lemmas.

  \<^emph>\<open>Modelling choices.\<close> Strings are HOL strings, lists of bytes; the string
  primitives are modelled on ASCII (JavaScript lower-cases and trims Unicode as well, and
  counts UTF-16 code units). JavaScript numbers that the code stores are integers below
  \<open>2^53\<close> and are \<open>int\<close>; the average rating of the mock data is a rational. The JSON
  library and the browser storage are not part of the repository: \<open>saveLocal\<close> stores
  the value itself, which is the law that \<open>JSON.parse\<close> inverts \<open>JSON.stringify\<close> on
  the values the code stores, and a stored text that does not parse is one constructor.
  The code keeps whatever JSON it reads; the model's decoders accept only data of the
  shape the code goes on to use and report the rest as a \<open>load_error\<close>. Time is an input:
  the post event carries the values of \<open>Date.now()\<close> and \<open>new Date().toISOString()\<close>.
  React runs an effect only when its dependency changed; \<open>persist\<close> writes all three
  stores after every action, which leaves the same storage because an unchanged store
  rewrites the value already there. Every function is structural recursion or a fold over
  a finite list, so there is no fuel and no termination argument beyond the
  definitions.

  Two over-approximations are deliberate. \<open>QueryInput\<close> is accepted on every tab,
  while in the browser typing needs the field's focus, whose handler (line 180) switches to
  the search tab first; and the controls under the open filter modal stay usable, as they
  are from the keyboard. Both only add behaviours, so the safety lemmas hold of the code a
  fortiori; the path of the liveness lemma C30 types on the home tab, and the real
  interface reaches the same state by focusing the field (search tab), where the card is
  rendered as well.

  The clock is an input as well: \<open>clock_ok\<close> states the hypothesis that the clock
  readings of successive posts strictly increase, which is what the identifiers need and
  what \<open>Date.now()\<close> does not guarantee (C28). The liveness lemmas name the event
  sequence that reaches the goal instead of quantifying over paths, so they need neither
  fuel nor a fairness assumption.

  \<^emph>\<open>Plan.\<close> Modelled first, in order of importance: the App state machine and
  its review and session guards, the search filter, the stores and their persistence, the
  abstract specification of the persisted data, the review store over runs and its
  rendered list, the view router and its liveness, then the star displays. Every
  component of \<open>src/\<close> that changes state or decides what is shown is now modelled; what
  could still be added is view-level detail of the details page (its menu list and
  header), which is static text of the catalog.

  \<^emph>\<open>Not modelled.\<close> Markup and styling (images, icons, grid layout, the map
  placeholder, the header and footer of the v1.1 page, the text of the filter panel, whose
  four controls are modelled and only close it); the locale formatting of a
  review's date (\<open>toLocaleString\<close>), which is the browser's; the UI
  kit \<open>components/ui/card\<close>; concurrency between browser tabs (the code has none and the
  specification calls it out of scope).
\<close>

definition guest_events :: "ui_event list" where
  "guest_events =
     [CardEv ''r1'' ViewDetails, DetailsEv (StarClick 5), DetailsEv (ReviewInput ''Great food''),
      DetailsEv (PostReview 1762646400000 ''2025-11-09T00:00:00.000Z'')]"

definition asha_events :: "ui_event list" where
  "asha_events =
     [TabBarEv TabLogin, LoginEv (LoginNameInput ''Asha''), LoginEv (LoginEmailInput ''a@x.com''),
      LoginEv LoginContinue, CardEv ''r1'' ViewDetails, DetailsEv (StarClick 4),
      DetailsEv (ReviewInput ''Loved it here''),
      DetailsEv (PostReview 1762646400000 ''2025-11-09T00:00:00.000Z'')]"

definition fresh_start :: "app \<times> storage" where
  "fresh_start = (initial_app None [] [], persist (initial_app None [] []) Map.empty)"

text \<open>
  The scenarios of the specification (section 8) as runs of the model. Search scenario of the specification on the mock catalog: \<open>"dhanmondi"\<close> finds exactly
  Chaa Club, \<open>"vietnamese"\<close> exactly BunBun Banh Mi, and \<open>"zzz"\<close> nothing.
\<close>

lemma scenario_search:
  "map name (restaurants MOCK_RESTAURANTS ''dhanmondi'') = [''Chaa Club''] \<and>
   map name (restaurants MOCK_RESTAURANTS ''vietnamese'') = [''BunBun Banh Mi''] \<and>
   restaurants MOCK_RESTAURANTS ''zzz'' = []"
  by code_simp

text \<open>
  Scenario without a session: from empty storage, opening BunBun Banh Mi, choosing five
  stars, typing "Great food" and pressing post leaves its review list empty, in the state
  and in the storage.
\<close>

lemma scenario_guest_post_rejected:
  "boot Map.empty = Inr fresh_start \<and>
   reviews_of (reviews (fst (sys_run fresh_start guest_events))) ''r1'' = [] \<and>
   snd (sys_run fresh_start guest_events) ''nom_reviews'' = Some (Parsed (JObj []))"
  by (simp add: boot_def app_init_empty fresh_start_def guest_events_def) code_simp

text \<open>
  Scenario with a session: after logging in as Asha and posting four stars with "Loved it
  here" on BunBun Banh Mi, its review list holds exactly one review, by Asha, with four stars.
\<close>

lemma scenario_login_then_review:
  "boot Map.empty = Inr fresh_start \<and>
   map (\<lambda>r. (review_user r, stars r, review_text r))
      (reviews_of (reviews (fst (sys_run fresh_start asha_events))) ''r1'') =
   [(''Asha'', 4, ''Loved it here'')]"
  by (simp add: boot_def app_init_empty fresh_start_def asha_events_def) code_simp

end
